theory Spec2Isabelle
  imports Main
begin

text \<open>
  The bridge exists in two variants with the same HTTP surface. The direct-call variant
  (\<open>server.js\<close>) converts a chat request into the backend's message format, calls the
  remote API and translates its result or its event stream back. The process variant
  spawns the agent binary for each request, relays its output, and guards the spawns
  with a counter of running processes. Both are embedded below as functions on explicit
  state: the response object, the counter, the per-request variables. What the runtime
  and the backend supply (parsing, serialization, random bytes, the clock, the outcome
  of a call or of a process run) is an argument of the function that uses it.
\<close>

section \<open>Admission controller of the process variant\<close>

text \<open>
  The process variant keeps one module-level counter \<open>activeProcesses\<close>, starting at 0,
  and a configured capacity \<open>MAX_CONCURRENT\<close>. Both are integers; the capacity is a
  parameter of every function below. \<open>acquireSlot\<close> returns its boolean result together
  with the new counter, \<open>releaseSlot\<close> returns the new counter.
\<close>

definition acquireSlot :: "int \<Rightarrow> int \<Rightarrow> bool \<times> int" where
  "acquireSlot MAX_CONCURRENT activeProcesses =
     (if activeProcesses \<ge> MAX_CONCURRENT then (False, activeProcesses)
      else (True, activeProcesses + 1))"

definition releaseSlot :: "int \<Rightarrow> int" where
  "releaseSlot activeProcesses = max 0 (activeProcesses - 1)"

text \<open>An interleaving of calls made by concurrent requests, run in order on the counter.\<close>

datatype slot_call = Acquire | Release

fun slot_step :: "int \<Rightarrow> int \<Rightarrow> slot_call \<Rightarrow> int" where
  "slot_step MAX_CONCURRENT a Acquire = snd (acquireSlot MAX_CONCURRENT a)"
| "slot_step MAX_CONCURRENT a Release = releaseSlot a"

definition slot_run :: "int \<Rightarrow> int \<Rightarrow> slot_call list \<Rightarrow> int" where
  "slot_run MAX_CONCURRENT a cs = foldl (slot_step MAX_CONCURRENT) a cs"

section \<open>Values shared by both variants\<close>

text \<open>
  JSON payloads that the bridge passes through without looking inside (tool arguments,
  tool inputs) and the backend's stream events, which it inspects field by field.
  A missing property (JavaScript \<open>undefined\<close>) is \<open>None\<close> at the place of use.
  A string is a sequence of UTF-16 code units below 256, one \<open>char\<close> each, so that
  \<open>length\<close> is the \<open>length\<close> of the code. A number is an integer-valued double:
  \<open>JNum n\<close> for a double whose value is the integer \<open>n\<close>.
\<close>

datatype json =
    JNull
  | JBool bool
  | JNum int
  | JStr string
  | JArr "json list"
  | JObj "(string \<times> json) list"

text \<open>JavaScript truthiness, as used by \<open>x || y\<close>, \<open>if (x)\<close> and \<open>x && y\<close>.\<close>

fun truthy :: "json \<Rightarrow> bool" where
  "truthy JNull = False"
| "truthy (JBool b) = b"
| "truthy (JNum n) = (n \<noteq> 0)"
| "truthy (JStr s) = (s \<noteq> [])"
| "truthy (JArr xs) = True"
| "truthy (JObj kvs) = True"

definition truthy_opt :: "json option \<Rightarrow> bool" where
  "truthy_opt v = (case v of None \<Rightarrow> False | Some j \<Rightarrow> truthy j)"

text \<open>
  Property read \<open>v?.k\<close>: the property of an object, \<open>undefined\<close> on every other value.
  The names read by the code (\<open>type\<close>, \<open>delta\<close>, \<open>text\<close>, ...) are no built-in
  property of a string, a number or an array. The one unguarded read, \<open>event.type\<close> on
  a parsed event, throws on \<open>null\<close> inside a \<open>try\<close> whose handler skips the event;
  here every test on such an event fails, and it is skipped as well.
\<close>

fun field :: "string \<Rightarrow> json \<Rightarrow> json option" where
  "field k (JObj kvs) = map_of kvs k"
| "field k v = None"

definition field_opt :: "string \<Rightarrow> json option \<Rightarrow> json option" where
  "field_opt k v = (case v of None \<Rightarrow> None | Some j \<Rightarrow> field k j)"

definition NL :: string where
  "NL = [CHR 0x0A]"

text \<open>\<open>xs.join(sep)\<close> on a list of strings.\<close>

fun join :: "string \<Rightarrow> string list \<Rightarrow> string" where
  "join sep [] = []"
| "join sep [x] = x"
| "join sep (x # y # ys) = x @ sep @ join sep (y # ys)"

text \<open>\<open>s.startsWith(p)\<close> and \<open>s.includes(p)\<close> (the latter as \<open>str_includes\<close>).\<close>

definition startsWith :: "string \<Rightarrow> string \<Rightarrow> bool" where
  "startsWith s p = (take (length p) s = p)"

fun str_includes :: "string \<Rightarrow> string \<Rightarrow> bool" where
  "str_includes [] p = (p = [])"
| "str_includes (c # cs) p = (startsWith (c # cs) p \<or> str_includes cs p)"

text \<open>
  \<open>s.split('\n')\<close>: the pieces between line feeds; always at least one piece.
\<close>

fun split_lines :: "string \<Rightarrow> string list" where
  "split_lines [] = [[]]"
| "split_lines (c # cs) =
     (if c = CHR 0x0A then [] # split_lines cs
      else (case split_lines cs of
              [] \<Rightarrow> [[c]]
            | l # ls \<Rightarrow> (c # l) # ls))"

text \<open>
  \<open>s.trim()\<close>: the white space and line terminators among the code units below 256
  are tab, line feed, vertical tab, form feed, carriage return, space and no-break
  space.
\<close>

definition is_space :: "char \<Rightarrow> bool" where
  "is_space c = (c \<in> {CHR 0x09, CHR 0x0A, CHR 0x0B, CHR 0x0C, CHR 0x0D, CHR 0x20, CHR 0xA0})"

definition trim :: "string \<Rightarrow> string" where
  "trim s = rev (dropWhile is_space (rev (dropWhile is_space s)))"

text \<open>
  What the runtime supplies: the configured token, \<open>JSON.parse\<close> (\<open>None\<close> when it
  throws), \<open>JSON.stringify\<close>, the text of the n-th \<open>crypto.randomBytes(12)\<close> draw
  in base64url, and the result of \<open>x + y\<close> when \<open>x\<close> and \<open>y\<close> are not both numbers
  (a concatenation of strings, or a sum after conversion). They are parameters of the
  model.
\<close>

record env =
  AUTH_TOKEN :: string
  JSON_parse :: "string \<Rightarrow> json option"
  JSON_stringify :: "json \<Rightarrow> string"
  randomBytes :: "nat \<Rightarrow> string"
  plus_other :: "json \<Rightarrow> json \<Rightarrow> json"

text \<open>
  The sum of two numbers is the double nearest to the exact sum, a tie going to the
  even significand. On integers: below \<open>2^53\<close> the doubles are one apart, from there
  to \<open>2^54\<close> two apart, and so on (\<open>ulp\<close>); an integer is rounded to the nearest
  multiple of that distance. (A sum beyond the largest finite double, about
  \<open>2^1024\<close>, would be \<open>Infinity\<close>; such counts are not modelled.)
\<close>

function ulp :: "int \<Rightarrow> int" where
  "ulp m = (if m < 2 ^ 53 then 1 else 2 * ulp (m div 2))"
  by pat_completeness auto
termination
  by (relation "measure nat") auto

definition round_to_double :: "int \<Rightarrow> int" where
  "round_to_double m =
     (let u = ulp m; q = m div u; r = m mod u
      in (if 2 * r > u \<or> (2 * r = u \<and> odd q) then q + 1 else q) * u)"

definition to_double :: "int \<Rightarrow> int" where
  "to_double x = (if x < 0 then - round_to_double (- x) else round_to_double x)"

text \<open>The operator \<open>+\<close> of the code, on two values.\<close>

definition js_plus :: "('x env_scheme) \<Rightarrow> json \<Rightarrow> json \<Rightarrow> json" where
  "js_plus e x y =
     (case x of
        JNum a \<Rightarrow> (case y of JNum b \<Rightarrow> JNum (to_double (a + b)) | _ \<Rightarrow> plus_other e x y)
      | _ \<Rightarrow> plus_other e x y)"

text \<open>
  \<open>genId(prefix)\<close>; the counter of draws is threaded through every function that
  generates identifiers.
\<close>

definition genId :: "('x env_scheme) \<Rightarrow> string \<Rightarrow> nat \<Rightarrow> string \<times> nat" where
  "genId e prefix n = (prefix @ ''-'' @ randomBytes e n, Suc n)"

section \<open>Direct-call variant: the message converter\<close>

text \<open>
  An inbound chat message, typed after the request schema: a role string, a content that
  is a string, a list of typed parts or absent (\<open>null\<close>), the tool calls of an assistant
  message and the call identifier of a tool message.
\<close>

datatype part =
    TextPart string
  | ImageUrlPart "string option"
  | OtherPart string

datatype mcontent = CStr string | CParts "part list" | CNull

text \<open>
  \<open>fn.arguments\<close> by its \<open>typeof\<close>: a string, an object (which includes \<open>null\<close> and
  arrays), or anything else.
\<close>

datatype arguments = ArgString string | ArgObject json | ArgOther

record fn =
  fn_name :: "string option"
  fn_arguments :: arguments

record tool_call =
  tc_id :: "string option"
  tc_function :: "fn option"

record message =
  m_role :: string
  m_content :: mcontent
  m_tool_calls :: "tool_call list option"
  m_tool_call_id :: "string option"

text \<open>The native request: content blocks and role-tagged messages.\<close>

datatype image_source = Base64 string string | Url string

datatype block =
    Text string
  | Image image_source
  | ToolUse string "string option" json
  | ToolResult string string

datatype ncontent = NStr string | NBlocks "block list"

datatype nrole = User | Assistant

record nmessage =
  n_role :: nrole
  n_content :: ncontent

record sysblock =
  sys_text :: string
  cache_control_ephemeral :: bool

record native =
  n_system :: "sysblock list option"
  n_messages :: "nmessage list"

definition isOAuthToken :: "string \<Rightarrow> bool" where
  "isOAuthToken token = (token \<noteq> [] \<and> str_includes token ''sk-ant-oat'')"

fun extractText :: "mcontent \<Rightarrow> string" where
  "extractText (CStr s) = s"
| "extractText (CParts ps) =
     join NL (concat (map (\<lambda>p. case p of TextPart t \<Rightarrow> [t] | _ \<Rightarrow> []) ps))"
| "extractText CNull = []"

text \<open>
  The match of \<open>/^data:(image\/[^;]+);base64,(.+)$/\<close>: the media type runs to the first
  semicolon and is longer than \<open>image/\<close>; the data is the non-empty rest, free of line
  terminators. The result is the two groups.
\<close>

definition matchDataUri :: "string \<Rightarrow> (string \<times> string) option" where
  "matchDataUri url =
     (if startsWith url ''data:image/'' then
        (let rest = drop 11 url;
             subtype = takeWhile (\<lambda>c. c \<noteq> CHR '';'') rest;
             after = dropWhile (\<lambda>c. c \<noteq> CHR '';'') rest;
             payload = drop 8 after
         in if subtype \<noteq> [] \<and> startsWith after '';base64,'' \<and> payload \<noteq> []
               \<and> list_all (\<lambda>c. c \<noteq> CHR 0x0A \<and> c \<noteq> CHR 0x0D) payload
            then Some (''image/'' @ subtype, payload) else None)
      else None)"

text \<open>The body of the loop of \<open>convertContent\<close> over one part: the blocks it pushes.\<close>

fun convertPart :: "part \<Rightarrow> block list" where
  "convertPart (TextPart t) = [Text t]"
| "convertPart (ImageUrlPart u) =
     (case u of
        None \<Rightarrow> []
      | Some url \<Rightarrow>
          if url = [] then []
          else if startsWith url ''data:'' then
            (case matchDataUri url of
               Some (media_type, payload) \<Rightarrow> [Image (Base64 media_type payload)]
             | None \<Rightarrow> [])
          else [Image (Url url)])"
| "convertPart (OtherPart ty) = []"

fun convertContent :: "mcontent \<Rightarrow> ncontent" where
  "convertContent (CStr s) = NStr s"
| "convertContent CNull = NStr []"
| "convertContent (CParts ps) =
     (case concat (map convertPart ps) of
        [Text t] \<Rightarrow> NStr t
      | parts \<Rightarrow> NBlocks parts)"

text \<open>
  \<open>pushMessage\<close>: the array after the call. A string content of the last entry becomes
  one text block before the new content is pushed onto it.
\<close>

definition pushMessage :: "nmessage list \<Rightarrow> nrole \<Rightarrow> ncontent \<Rightarrow> nmessage list" where
  "pushMessage arr r c =
     (if arr \<noteq> [] \<and> n_role (last arr) = r then
        (let lst = last arr;
             mine = (case n_content lst of NStr s \<Rightarrow> [Text s] | NBlocks bs \<Rightarrow> bs);
             pushed = (case c of NStr s \<Rightarrow> mine @ [Text s] | NBlocks bs \<Rightarrow> mine @ bs)
         in butlast arr @ [lst\<lparr>n_content := NBlocks pushed\<rparr>])
      else arr @ [\<lparr>n_role = r, n_content = c\<rparr>])"

text \<open>One tool call of an assistant message: the \<open>tool_use\<close> block and the draw counter.\<close>

definition convertToolCall :: "('x env_scheme) \<Rightarrow> tool_call \<Rightarrow> nat \<Rightarrow> block \<times> nat" where
  "convertToolCall e tc n =
     (let f = (case tc_function tc of
                 Some g \<Rightarrow> g
               | None \<Rightarrow> \<lparr>fn_name = None, fn_arguments = ArgOther\<rparr>);
          args = (case fn_arguments f of
                    ArgString s \<Rightarrow> (case JSON_parse e s of Some v \<Rightarrow> v | None \<Rightarrow> JObj [])
                  | ArgObject v \<Rightarrow> v
                  | ArgOther \<Rightarrow> JObj []);
          (ident, n') = (case tc_id tc of
                           None \<Rightarrow> genId e ''toolu'' n
                         | Some i \<Rightarrow> if i \<noteq> [] then (i, n) else genId e ''toolu'' n)
      in (ToolUse ident (fn_name f) args, n'))"

fun convertToolCalls :: "('x env_scheme) \<Rightarrow> tool_call list \<Rightarrow> nat \<Rightarrow> block list \<times> nat" where
  "convertToolCalls e [] n = ([], n)"
| "convertToolCalls e (tc # tcs) n =
     (let (b, n1) = convertToolCall e tc n;
          (bs, n2) = convertToolCalls e tcs n1
      in (b # bs, n2))"

text \<open>
  The state of the loop of \<open>convertMessages\<close>: the system parts, the native messages and
  the draw counter. \<open>stringify_content\<close> is \<open>JSON.stringify\<close> on a message content that
  is not a string.
\<close>

record conv =
  systemParts :: "string list"
  anthropicMessages :: "nmessage list"
  draws :: nat

definition has_tool_calls :: "message \<Rightarrow> bool" where
  "has_tool_calls msg =
     (m_role msg = ''assistant'' \<and>
      (case m_tool_calls msg of None \<Rightarrow> False | Some tcs \<Rightarrow> length tcs > 0))"

definition toolCallBlocks :: "('x env_scheme) \<Rightarrow> message \<Rightarrow> nat \<Rightarrow> block list \<times> nat" where
  "toolCallBlocks e msg n =
     (let textBlocks =
            (case m_content msg of
               CStr s \<Rightarrow> (if s \<noteq> [] then [Text s] else [])
             | CParts ps \<Rightarrow> (if extractText (CParts ps) \<noteq> [] then [Text (extractText (CParts ps))] else [])
             | CNull \<Rightarrow> []);
          (uses, n') = convertToolCalls e (case m_tool_calls msg of None \<Rightarrow> [] | Some tcs \<Rightarrow> tcs) n
      in (textBlocks @ uses, n'))"

definition convertStep ::
  "('x env_scheme) \<Rightarrow> (mcontent \<Rightarrow> string) \<Rightarrow> conv \<Rightarrow> message \<Rightarrow> conv" where
  "convertStep e stringify_content st msg =
     (if m_role msg = ''system'' then
        (let t = extractText (m_content msg)
         in if t \<noteq> [] then st\<lparr>systemParts := systemParts st @ [t]\<rparr> else st)
      else if has_tool_calls msg then
        (let (contentBlocks, n') = toolCallBlocks e msg (draws st)
         in st\<lparr>anthropicMessages := pushMessage (anthropicMessages st) Assistant (NBlocks contentBlocks),
                draws := n'\<rparr>)
      else if m_role msg = ''tool'' then
        (let resultContent = (case m_content msg of CStr s \<Rightarrow> s | c \<Rightarrow> stringify_content c);
             toolResultBlock =
               ToolResult (case m_tool_call_id msg of None \<Rightarrow> [] | Some i \<Rightarrow> i) resultContent
         in st\<lparr>anthropicMessages := pushMessage (anthropicMessages st) User (NBlocks [toolResultBlock])\<rparr>)
      else
        (let r = (if m_role msg = ''assistant'' then Assistant else User)
         in st\<lparr>anthropicMessages := pushMessage (anthropicMessages st) r (convertContent (m_content msg))\<rparr>))"

definition convertLoop ::
  "('x env_scheme) \<Rightarrow> (mcontent \<Rightarrow> string) \<Rightarrow> nat \<Rightarrow> message list \<Rightarrow> conv" where
  "convertLoop e stringify_content n messages =
     foldl (convertStep e stringify_content)
       \<lparr>systemParts = [], anthropicMessages = [], draws = n\<rparr> messages"

definition placeholder :: nmessage where
  "placeholder = \<lparr>n_role = User, n_content = NStr ''(continue)''\<rparr>"

definition ensureUserFirst :: "nmessage list \<Rightarrow> nmessage list" where
  "ensureUserFirst arr =
     (if length arr > 0 \<and> n_role (hd arr) \<noteq> User then placeholder # arr else arr)"

definition identity_line :: string where
  "identity_line = ''You are Claude Code, Anthropic'' @ [CHR 0x27] @ ''s official CLI for Claude.''"

definition systemPromptOf :: "string \<Rightarrow> string list \<Rightarrow> sysblock list option" where
  "systemPromptOf token parts =
     (if isOAuthToken token then
        Some [\<lparr>sys_text = join (NL @ NL)
                  ([identity_line] @ (if length parts > 0 then [join (NL @ NL) parts] else [])),
                cache_control_ephemeral = True\<rparr>]
      else if length parts > 0 then
        Some [\<lparr>sys_text = join (NL @ NL) parts, cache_control_ephemeral = False\<rparr>]
      else None)"

text \<open>\<open>convertMessages\<close>: the native request and the draw counter after it.\<close>

definition convertMessages ::
  "('x env_scheme) \<Rightarrow> (mcontent \<Rightarrow> string) \<Rightarrow> nat \<Rightarrow> message list \<Rightarrow> native \<times> nat" where
  "convertMessages e stringify_content n messages =
     (let st = convertLoop e stringify_content n messages
      in (\<lparr>n_system = systemPromptOf (AUTH_TOKEN e) (systemParts st),
           n_messages = ensureUserFirst (anthropicMessages st)\<rparr>, draws st))"


text \<open>The content of an entry as a list of blocks, a string being one text block.\<close>

definition blocksOf :: "ncontent \<Rightarrow> block list" where
  "blocksOf c = (case c of NStr s \<Rightarrow> [Text s] | NBlocks bs \<Rightarrow> bs)"

section \<open>Direct-call variant: stop reasons and the response assembler\<close>

text \<open>
  \<open>mapStopReason\<close> on a value that may be absent. The callers test for \<open>tool_use\<close>
  themselves before they call it; \<open>finishReasonOf\<close> is that expression.
\<close>

definition mapStopReason :: "json option \<Rightarrow> string" where
  "mapStopReason reason =
     (if reason = Some (JStr ''end_turn'') \<or> reason = Some (JStr ''stop_sequence'') then ''stop''
      else if reason = Some (JStr ''max_tokens'') then ''length''
      else if reason = Some (JStr ''tool_use'') then ''tool_calls''
      else ''stop'')"

definition finishReasonOf :: "json option \<Rightarrow> string" where
  "finishReasonOf reason =
     (if reason = Some (JStr ''tool_use'') then ''tool_calls'' else mapStopReason reason)"

text \<open>
  A completed backend result: content blocks (a text block carries its text, a tool
  invocation its optional identifier, name and input), the stop reason and the usage
  object with its two counts, each any value or absent.
\<close>

datatype rblock =
    RText string
  | RToolUse "string option" "string option" "json option"
  | ROther string

record usage =
  input_tokens :: "json option"
  output_tokens :: "json option"

record api_result =
  r_content :: "rblock list option"
  r_stop_reason :: "json option"
  r_usage :: "usage option"

record tool_call_entry =
  tce_id :: string
  tce_name :: "string option"
  tce_arguments :: string

record extracted =
  ex_textParts :: "string list"
  ex_toolCalls :: "tool_call_entry list"
  ex_draws :: nat

definition extractBlock :: "('x env_scheme) \<Rightarrow> extracted \<Rightarrow> rblock \<Rightarrow> extracted" where
  "extractBlock e st b =
     (case b of
        RText t \<Rightarrow> (if t \<noteq> [] then st\<lparr>ex_textParts := ex_textParts st @ [t]\<rparr> else st)
      | RToolUse bid name inp \<Rightarrow>
          (let (ident, n') = (case bid of
                                None \<Rightarrow> genId e ''call'' (ex_draws st)
                              | Some i \<Rightarrow> if i \<noteq> [] then (i, ex_draws st)
                                          else genId e ''call'' (ex_draws st));
               arg = (if truthy_opt inp then (case inp of Some v \<Rightarrow> v | None \<Rightarrow> JObj []) else JObj [])
           in st\<lparr>ex_toolCalls := ex_toolCalls st @
                    [\<lparr>tce_id = ident, tce_name = name, tce_arguments = JSON_stringify e arg\<rparr>],
                  ex_draws := n'\<rparr>)
      | ROther ty \<Rightarrow> st)"

text \<open>\<open>extractResponseContent\<close>: the joined text, the tool calls and the draw counter.\<close>

definition extractResponseContent ::
  "('x env_scheme) \<Rightarrow> rblock list \<Rightarrow> nat \<Rightarrow> string \<times> tool_call_entry list \<times> nat" where
  "extractResponseContent e contentBlocks n =
     (let st = foldl (extractBlock e) \<lparr>ex_textParts = [], ex_toolCalls = [], ex_draws = n\<rparr> contentBlocks
      in (concat (ex_textParts st), ex_toolCalls st, ex_draws st))"

record usage_out =
  prompt_tokens :: json
  completion_tokens :: json
  total_tokens :: json

record out_message =
  msg_content :: "string option"
  msg_tool_calls :: "tool_call_entry list option"

record completion =
  cmpl_id :: string
  cmpl_created :: int
  cmpl_model :: string
  cmpl_message :: out_message
  cmpl_finish_reason :: string
  cmpl_usage :: usage_out

record text_completion =
  tc_cmpl_id :: string
  tc_created :: int
  tc_model :: string
  tc_text :: string
  tc_finish_reason :: string
  tc_usage :: usage_out

text \<open>\<open>result.usage?.input_tokens || 0\<close> and its sibling.\<close>

definition tokens_or_zero :: "usage option \<Rightarrow> (usage \<Rightarrow> json option) \<Rightarrow> json" where
  "tokens_or_zero u sel =
     (case u of
        None \<Rightarrow> JNum 0
      | Some us \<Rightarrow> (case sel us of None \<Rightarrow> JNum 0 | Some v \<Rightarrow> if truthy v then v else JNum 0))"

definition directUsage :: "('x env_scheme) \<Rightarrow> api_result \<Rightarrow> usage_out" where
  "directUsage e result =
     \<lparr>prompt_tokens = tokens_or_zero (r_usage result) input_tokens,
      completion_tokens = tokens_or_zero (r_usage result) output_tokens,
      total_tokens = js_plus e (tokens_or_zero (r_usage result) input_tokens)
                       (tokens_or_zero (r_usage result) output_tokens)\<rparr>"

text \<open>
  The body that \<open>handleNonStreaming\<close> sends for a backend result, and the draw counter.
\<close>

definition assemble ::
  "('x env_scheme) \<Rightarrow> string \<Rightarrow> int \<Rightarrow> string \<Rightarrow> api_result \<Rightarrow> nat \<Rightarrow> completion \<times> nat" where
  "assemble e requestId created model result n =
     (let (text, toolCalls, n') =
            extractResponseContent e (case r_content result of None \<Rightarrow> [] | Some bs \<Rightarrow> bs) n;
          finishReason = finishReasonOf (r_stop_reason result);
          message = \<lparr>msg_content = (if text \<noteq> [] then Some text else None),
                     msg_tool_calls = (if length toolCalls > 0 then Some toolCalls else None)\<rparr>
      in (\<lparr>cmpl_id = requestId, cmpl_created = created, cmpl_model = model,
            cmpl_message = message, cmpl_finish_reason = finishReason,
            cmpl_usage = directUsage e result\<rparr>, n'))"

section \<open>The HTTP response object\<close>

text \<open>
  What has been done to \<open>res\<close>: whether the headers went out, the status code, the
  event-stream frames written so far, the body of a \<open>res.json\<close> call, and whether the
  response was ended. A streamed chunk carries its delta and finish reason; the other
  frames are an error object and the \<open>[DONE]\<close> sentinel.
\<close>

datatype delta =
    RoleDelta
  | ContentDelta json
  | ToolCallStart int json "json option"
  | ToolCallArgs int json
  | EmptyDelta

record chunk =
  ch_id :: string
  ch_created :: int
  ch_model :: string
  ch_delta :: delta
  ch_finish_reason :: "string option"

datatype frame = Data chunk | DataError string string | Done

datatype body =
    ChatCompletion completion
  | TextCompletion text_completion
  | ErrorBody string string "string option"

record res =
  headersSent :: bool
  statusCode :: nat
  frames :: "frame list"
  json_body :: "body option"
  ended :: bool

definition fresh_res :: res where
  "fresh_res = \<lparr>headersSent = False, statusCode = 200, frames = [], json_body = None, ended = False\<rparr>"

definition res_write :: "res \<Rightarrow> frame \<Rightarrow> res" where
  "res_write r f = r\<lparr>headersSent := True, frames := frames r @ [f]\<rparr>"

definition sendSSE :: "res \<Rightarrow> chunk \<Rightarrow> res" where
  "sendSSE r c = res_write r (Data c)"

definition res_end :: "res \<Rightarrow> res" where
  "res_end r = r\<lparr>headersSent := True, ended := True\<rparr>"

definition res_json :: "res \<Rightarrow> nat \<Rightarrow> body \<Rightarrow> res" where
  "res_json r code b = r\<lparr>headersSent := True, statusCode := code, json_body := Some b, ended := True\<rparr>"

definition mk_chunk :: "string \<Rightarrow> int \<Rightarrow> string \<Rightarrow> delta \<Rightarrow> string option \<Rightarrow> chunk" where
  "mk_chunk requestId created model d fr =
     \<lparr>ch_id = requestId, ch_created = created, ch_model = model, ch_delta = d, ch_finish_reason = fr\<rparr>"

text \<open>Frame classifiers used to count what a client receives.\<close>

fun is_finish :: "frame \<Rightarrow> bool" where
  "is_finish (Data c) = (ch_delta c = EmptyDelta \<and> ch_finish_reason c \<noteq> None)"
| "is_finish f = False"

fun is_content :: "frame \<Rightarrow> bool" where
  "is_content (Data c) = (case ch_delta c of ContentDelta t \<Rightarrow> True | _ \<Rightarrow> False)"
| "is_content f = False"

fun is_error_frame :: "frame \<Rightarrow> bool" where
  "is_error_frame (DataError m t) = True"
| "is_error_frame f = False"

fun finish_reason_of :: "frame \<Rightarrow> string option" where
  "finish_reason_of (Data c) = ch_finish_reason c"
| "finish_reason_of f = None"

section \<open>Direct-call variant: the streaming translator\<close>

text \<open>
  The local variables of \<open>handleStreaming\<close> together with the response and the draw
  counter. The identifiers of the request are fixed for its whole life.
\<close>

record ctx =
  requestId :: string
  created :: int
  model :: string

record dstream =
  d_buffer :: string
  toolCallIndex :: int
  activeToolCalls :: "(int \<times> json option \<times> json option) list"
  stopReason :: json
  d_res :: res
  d_draws :: nat

definition is_lit :: "json option \<Rightarrow> string \<Rightarrow> bool" where
  "is_lit v s = (v = Some (JStr s))"

text \<open>The four tests made on one parsed event, in the order of the source.\<close>

definition onTextDelta :: "ctx \<Rightarrow> json \<Rightarrow> dstream \<Rightarrow> dstream" where
  "onTextDelta c event st =
     (if is_lit (field ''type'' event) ''content_block_delta''
         \<and> is_lit (field_opt ''type'' (field ''delta'' event)) ''text_delta''
         \<and> truthy_opt (field_opt ''text'' (field ''delta'' event))
      then (case field_opt ''text'' (field ''delta'' event) of
              Some t \<Rightarrow> st\<lparr>d_res := sendSSE (d_res st)
                              (mk_chunk (requestId c) (created c) (model c) (ContentDelta t) None)\<rparr>
            | None \<Rightarrow> st)
      else st)"

definition onToolUseStart :: "('x env_scheme) \<Rightarrow> ctx \<Rightarrow> json \<Rightarrow> dstream \<Rightarrow> dstream" where
  "onToolUseStart e c event st =
     (if is_lit (field ''type'' event) ''content_block_start''
         \<and> is_lit (field_opt ''type'' (field ''content_block'' event)) ''tool_use''
      then
        (let idx = toolCallIndex st + 1;
             bid = field_opt ''id'' (field ''content_block'' event);
             bname = field_opt ''name'' (field ''content_block'' event);
             (ident, n') = (case bid of
                              None \<Rightarrow> (let (g, k) = genId e ''call'' (d_draws st) in (JStr g, k))
                            | Some v \<Rightarrow> if truthy v then (v, d_draws st)
                                        else (let (g, k) = genId e ''call'' (d_draws st) in (JStr g, k)))
         in st\<lparr>toolCallIndex := idx,
                activeToolCalls := (idx, bid, bname) # filter (\<lambda>(i, x). i \<noteq> idx) (activeToolCalls st),
                d_res := sendSSE (d_res st)
                  (mk_chunk (requestId c) (created c) (model c) (ToolCallStart idx ident bname) None),
                d_draws := n'\<rparr>)
      else st)"

definition onInputJsonDelta :: "ctx \<Rightarrow> json \<Rightarrow> dstream \<Rightarrow> dstream" where
  "onInputJsonDelta c event st =
     (if is_lit (field ''type'' event) ''content_block_delta''
         \<and> is_lit (field_opt ''type'' (field ''delta'' event)) ''input_json_delta''
      then (case field_opt ''partial_json'' (field ''delta'' event) of
              Some pj \<Rightarrow> st\<lparr>d_res := sendSSE (d_res st)
                  (mk_chunk (requestId c) (created c) (model c) (ToolCallArgs (toolCallIndex st) pj) None)\<rparr>
            | None \<Rightarrow> st)
      else st)"

definition onMessageDelta :: "json \<Rightarrow> dstream \<Rightarrow> dstream" where
  "onMessageDelta event st =
     (if is_lit (field ''type'' event) ''message_delta''
         \<and> truthy_opt (field_opt ''stop_reason'' (field ''delta'' event))
      then (case field_opt ''stop_reason'' (field ''delta'' event) of
              Some sr \<Rightarrow> st\<lparr>stopReason := sr\<rparr>
            | None \<Rightarrow> st)
      else st)"

definition handleEvent :: "('x env_scheme) \<Rightarrow> ctx \<Rightarrow> json \<Rightarrow> dstream \<Rightarrow> dstream" where
  "handleEvent e c event st =
     onMessageDelta event (onInputJsonDelta c event (onToolUseStart e c event (onTextDelta c event st)))"

text \<open>One line of the buffer: lines that are no data frame, empty or unparseable are skipped.\<close>

definition handleLine :: "('x env_scheme) \<Rightarrow> ctx \<Rightarrow> dstream \<Rightarrow> string \<Rightarrow> dstream" where
  "handleLine e c st line =
     (if \<not> startsWith line ''data: '' then st
      else (let d = trim (drop 6 line)
            in if d = [] \<or> d = ''[DONE]'' then st
               else (case JSON_parse e d of
                       None \<Rightarrow> st
                     | Some event \<Rightarrow> handleEvent e c event st)))"

definition handleRead :: "('x env_scheme) \<Rightarrow> ctx \<Rightarrow> dstream \<Rightarrow> string \<Rightarrow> dstream" where
  "handleRead e c st v =
     (let lines = split_lines (d_buffer st @ v)
      in foldl (handleLine e c) (st\<lparr>d_buffer := last lines\<rparr>) (butlast lines))"

text \<open>
  The backend's body as the sequence of results of \<open>reader.read()\<close>: a decoded value or
  a thrown error; the end of the list is \<open>done\<close>. The loop returns the state and the
  error that left it, if any.
\<close>

datatype read = ReadValue string | ReadThrow string

fun readLoop :: "('x env_scheme) \<Rightarrow> ctx \<Rightarrow> dstream \<Rightarrow> read list \<Rightarrow> dstream \<times> string option" where
  "readLoop e c st [] = (st, None)"
| "readLoop e c st (ReadThrow err # rs) = (st, Some err)"
| "readLoop e c st (ReadValue v # rs) = readLoop e c (handleRead e c st v) rs"

text \<open>
  What \<open>callAnthropic\<close> returns when it does not throw: a response whose body is a
  stream of reads, or a response without a body (\<open>apiRes.body\<close> is \<open>null\<close>).
\<close>

datatype response_body = NoBody | Body "read list"

text \<open>The variables of \<open>handleStreaming\<close> when the loop is entered: the role chunk has been sent.\<close>

definition streamOpened :: "ctx \<Rightarrow> res \<Rightarrow> nat \<Rightarrow> dstream" where
  "streamOpened c r n =
     \<lparr>d_buffer = [], toolCallIndex = -1, activeToolCalls = [], stopReason = JStr ''stop'',
      d_res = sendSSE r (mk_chunk (requestId c) (created c) (model c) RoleDelta None),
      d_draws = n\<rparr>"

definition no_reader :: string where
  "no_reader = ''Cannot read properties of null (reading '' @ [CHR 0x27] @ ''getReader''
               @ [CHR 0x27] @ '')''"

text \<open>
  \<open>handleStreaming\<close>. \<open>api\<close> is the outcome of \<open>callAnthropic\<close>: the error it throws or
  the response it returns. The result is the response to the client, the error thrown
  to the caller, and the draw counter. Without a body \<open>getReader\<close> throws after the
  role chunk and before the \<open>try\<close>; with a body the \<open>finally\<close> block runs on both
  ways out of the loop.
\<close>

definition handleStreaming ::
  "('x env_scheme) \<Rightarrow> ctx \<Rightarrow> res \<Rightarrow> string + response_body \<Rightarrow> nat \<Rightarrow> res \<times> string option \<times> nat" where
  "handleStreaming e c r api n =
     (case api of
        Inl err \<Rightarrow> (r, Some err, n)
      | Inr NoBody \<Rightarrow> (d_res (streamOpened c r n), Some no_reader, n)
      | Inr (Body reads) \<Rightarrow>
          (let (st, thrown) = readLoop e c (streamOpened c r n) reads;
               finishReason = finishReasonOf (Some (stopReason st));
               r2 = sendSSE (d_res st)
                      (mk_chunk (requestId c) (created c) (model c) EmptyDelta (Some finishReason));
               r3 = res_end (res_write r2 Done)
           in (r3, thrown, d_draws st)))"

text \<open>\<open>handleNonStreaming\<close>, on the outcome of \<open>callAnthropic\<close>.\<close>

definition handleNonStreaming ::
  "('x env_scheme) \<Rightarrow> ctx \<Rightarrow> res \<Rightarrow> string + api_result \<Rightarrow> nat \<Rightarrow> res \<times> string option \<times> nat" where
  "handleNonStreaming e c r api n =
     (case api of
        Inl err \<Rightarrow> (r, Some err, n)
      | Inr result \<Rightarrow>
          (let (cm, n') = assemble e (requestId c) (created c) (model c) result n
           in (res_json r 200 (ChatCompletion cm), None, n')))"

text \<open>
  The route \<open>POST /v1/chat/completions\<close>. The request carries its message list (absent
  or not an array: \<open>None\<close>) and the \<open>stream\<close> flag; the resolved model name and the clock
  are given. The backend outcome is the one the chosen handler meets.
\<close>

datatype backend = Streamed "string + response_body" | Completed "string + api_result"

definition chat_completions ::
  "('x env_scheme) \<Rightarrow> (mcontent \<Rightarrow> string) \<Rightarrow> string \<Rightarrow> int \<Rightarrow> message list option \<Rightarrow> backend
     \<Rightarrow> nat \<Rightarrow> res \<times> nat" where
  "chat_completions e stringify_content mdl now messages be n =
     (let (rid, n1) = genId e ''chatcmpl'' n
      in case messages of
           None \<Rightarrow> (res_json fresh_res 400 (ErrorBody ''messages is required'' ''invalid_request_error'' None), n1)
         | Some ms \<Rightarrow>
             if length ms = 0 then
               (res_json fresh_res 400 (ErrorBody ''messages is required'' ''invalid_request_error'' None), n1)
             else if AUTH_TOKEN e = [] then
               (res_json fresh_res 500 (ErrorBody ''No auth token configured'' ''server_error'' None), n1)
             else
               (let (nat_req, n2) = convertMessages e stringify_content n1 ms;
                    c = \<lparr>requestId = rid, created = now, model = mdl\<rparr>;
                    (r, thrown, n3) =
                      (case be of
                         Streamed api \<Rightarrow> handleStreaming e c fresh_res api n2
                       | Completed api \<Rightarrow> handleNonStreaming e c fresh_res api n2)
                in case thrown of
                     None \<Rightarrow> (r, n3)
                   | Some err \<Rightarrow>
                       if \<not> headersSent r then (res_json r 502 (ErrorBody err ''server_error'' None), n3)
                       else (r, n3)))"

text \<open>
  The route \<open>POST /v1/completions\<close>. The prompt is a string, a list of strings, absent
  (or another falsy value), or another truthy value (an object, a number, \<open>true\<close>),
  which has no \<open>join\<close>: calling it throws, here before anything is written, so that
  the response stays as it was.
\<close>

datatype prompt = PStr string | PList "string list" | PNone | POther

definition legacyText :: "api_result \<Rightarrow> string" where
  "legacyText result =
     concat (concat (map (\<lambda>b. case b of RText t \<Rightarrow> [t] | _ \<Rightarrow> [])
                      (case r_content result of None \<Rightarrow> [] | Some bs \<Rightarrow> bs)))"

definition completions ::
  "('x env_scheme) \<Rightarrow> (mcontent \<Rightarrow> string) \<Rightarrow> string \<Rightarrow> int \<Rightarrow> prompt \<Rightarrow> string + api_result
     \<Rightarrow> nat \<Rightarrow> res \<times> nat" where
  "completions e stringify_content mdl now pr api n =
     (if pr = POther then (fresh_res, n)
      else
      let p = (case pr of PStr s \<Rightarrow> s | PList ss \<Rightarrow> join NL ss | _ \<Rightarrow> [])
      in if trim p = [] then
           (res_json fresh_res 400 (ErrorBody ''prompt required'' ''invalid_request_error'' None), n)
         else
           (let (rid, n1) = genId e ''cmpl'' n;
                (nat_req, n2) = convertMessages e stringify_content n1
                   [\<lparr>m_role = ''user'', m_content = CStr p, m_tool_calls = None, m_tool_call_id = None\<rparr>]
            in case api of
                 Inl err \<Rightarrow> (res_json fresh_res 502 (ErrorBody err ''server_error'' None), n2)
               | Inr result \<Rightarrow>
                   (res_json fresh_res 200
                      (TextCompletion
                         \<lparr>tc_cmpl_id = rid, tc_created = now, tc_model = mdl,
                          tc_text = legacyText result, tc_finish_reason = ''stop'',
                          tc_usage = directUsage e result\<rparr>), n2)))"

section \<open>Process variant: non-streaming execution\<close>

text \<open>
  The configuration of the process variant, and how a template literal prints a number.
\<close>

record cfg =
  MAX_CONCURRENT :: int
  CLI_TIMEOUT_MS :: int
  show_num :: "int \<Rightarrow> string"

definition show_code :: "('y cfg_scheme) \<Rightarrow> int option \<Rightarrow> string" where
  "show_code g code = (case code of None \<Rightarrow> ''null'' | Some k \<Rightarrow> show_num g k)"

text \<open>
  The structured output of the agent binary, as far as the bridge reads it, and the
  result that \<open>runClaudeNonStreaming\<close> resolves to. The parser of the output is a
  parameter: \<open>None\<close> when the output is no such object, which sends the code to its
  plain-text fallback.
\<close>

record cli_output =
  is_error :: bool
  co_result :: "string option"
  co_usage :: "usage option"

record cli_result =
  cr_text :: string
  cr_usage :: "usage option"

text \<open>
  How a run of the spawned process ends: the call of \<open>spawn\<close> throws, the timer fires
  first, the process closes, or it emits an \<open>error\<close> event before that.
\<close>

datatype proc_end =
    SpawnThrew string
  | TimedOut
  | Closed "int option" string string
  | SpawnError string

definition runClaudeNonStreaming ::
  "('y cfg_scheme) \<Rightarrow> (string \<Rightarrow> cli_output option) \<Rightarrow> proc_end \<Rightarrow> string + cli_result" where
  "runClaudeNonStreaming g parse_cli pe =
     (case pe of
        SpawnThrew m \<Rightarrow> Inl m
      | TimedOut \<Rightarrow> Inl (''Claude CLI timed out after '' @ show_num g (CLI_TIMEOUT_MS g) @ ''ms'')
      | SpawnError m \<Rightarrow> Inl (''Failed to spawn Claude CLI: '' @ m)
      | Closed code out err \<Rightarrow>
          if code \<noteq> Some 0 then
            Inl (''Claude CLI exited with code '' @ show_code g code @ '': '' @ take 500 err)
          else
            (case parse_cli (trim out) of
               Some result \<Rightarrow>
                 if is_error result then
                   Inl (''Claude CLI error: '' @
                        (case co_result result of
                           None \<Rightarrow> ''Unknown error''
                         | Some t \<Rightarrow> if t \<noteq> [] then t else ''Unknown error''))
                 else
                   Inr \<lparr>cr_text = (case co_result result of None \<Rightarrow> [] | Some t \<Rightarrow> t),
                        cr_usage = co_usage result\<rparr>
             | None \<Rightarrow> Inr \<lparr>cr_text = trim out, cr_usage = None\<rparr>))"

text \<open>\<open>estimateTokens\<close>: a quarter of the length, rounded up.\<close>

definition estimateTokens :: "string \<Rightarrow> int" where
  "estimateTokens text = (if text = [] then 0 else (int (length text) + 3) div 4)"

text \<open>
  \<open>result.usage?.input_tokens ?? estimateTokens(...)\<close> and its sibling: the estimate
  stands in for an absent count and for \<open>null\<close>, for no other value.
\<close>

definition tokens_or_estimate :: "usage option \<Rightarrow> (usage \<Rightarrow> json option) \<Rightarrow> string \<Rightarrow> json" where
  "tokens_or_estimate u sel text =
     (case u of
        None \<Rightarrow> JNum (estimateTokens text)
      | Some us \<Rightarrow>
          (case sel us of
             None \<Rightarrow> JNum (estimateTokens text)
           | Some v \<Rightarrow> if v = JNull then JNum (estimateTokens text) else v))"

definition cliUsage :: "('x env_scheme) \<Rightarrow> string \<Rightarrow> cli_result \<Rightarrow> usage_out" where
  "cliUsage e prompt_text result =
     \<lparr>prompt_tokens = tokens_or_estimate (cr_usage result) input_tokens prompt_text,
      completion_tokens = tokens_or_estimate (cr_usage result) output_tokens (cr_text result),
      total_tokens = js_plus e (tokens_or_estimate (cr_usage result) input_tokens prompt_text)
                       (tokens_or_estimate (cr_usage result) output_tokens (cr_text result))\<rparr>"

section \<open>Process variant: the streaming relay\<close>

text \<open>
  The variables that the handlers of one streaming request share, with the response.
  \<open>killed\<close> records the \<open>SIGTERM\<close> sent on a client disconnect. The module-level
  counter is passed beside this state.
\<close>

record pstream =
  p_buffer :: string
  p_stderr :: string
  sentContent :: bool
  finished :: bool
  killed :: bool
  p_res :: res

text \<open>\<open>handleStreamEvent\<close>: the response after it and \<open>true\<close> iff it sent content.\<close>

definition handleStreamEvent :: "ctx \<Rightarrow> json \<Rightarrow> res \<Rightarrow> res \<times> bool" where
  "handleStreamEvent c event r =
     (if is_lit (field ''type'' event) ''stream_event''
         \<and> is_lit (field_opt ''type'' (field ''event'' event)) ''content_block_delta''
      then (case field_opt ''text'' (field_opt ''delta'' (field ''event'' event)) of
              Some t \<Rightarrow>
                if truthy t then
                  (sendSSE r (mk_chunk (requestId c) (created c) (model c) (ContentDelta t) None), True)
                else (r, False)
            | None \<Rightarrow> (r, False))
      else (r, False))"

text \<open>Parsing one piece of output and handing it to \<open>handleStreamEvent\<close>.\<close>

definition relayPiece :: "('x env_scheme) \<Rightarrow> ctx \<Rightarrow> pstream \<Rightarrow> string \<Rightarrow> pstream" where
  "relayPiece e c st line =
     (if trim line = [] then st
      else (case JSON_parse e line of
              None \<Rightarrow> st
            | Some event \<Rightarrow>
                (let (r, sent) = handleStreamEvent c event (p_res st)
                 in if sent then st\<lparr>p_res := r, sentContent := True\<rparr> else st\<lparr>p_res := r\<rparr>)))"

definition onStdout :: "('x env_scheme) \<Rightarrow> ctx \<Rightarrow> pstream \<Rightarrow> string \<Rightarrow> pstream" where
  "onStdout e c st d =
     (let lines = split_lines (p_buffer st @ d)
      in foldl (relayPiece e c) (st\<lparr>p_buffer := last lines\<rparr>) (butlast lines))"

definition onStderr :: "pstream \<Rightarrow> string \<Rightarrow> pstream" where
  "onStderr st d = st\<lparr>p_stderr := p_stderr st @ d\<rparr>"

text \<open>The expression that computes the finish reason in the \<open>close\<close> handler.\<close>

definition closeFinishReason :: "int option \<Rightarrow> bool \<Rightarrow> string" where
  "closeFinishReason code sent = (if code = Some 0 \<or> sent then ''stop'' else ''error'')"

definition onClose ::
  "('x env_scheme) \<Rightarrow> ('y cfg_scheme) \<Rightarrow> ctx \<Rightarrow> int option \<Rightarrow> pstream \<times> int \<Rightarrow> pstream \<times> int" where
  "onClose e g c code sa =
     (let st0 = fst sa; a = snd sa;
          st = (if trim (p_buffer st0) \<noteq> [] then relayPiece e c st0 (p_buffer st0) else st0)
      in if \<not> finished st then
           (let r1 = (if code \<noteq> Some 0 \<and> \<not> sentContent st then
                        res_write (p_res st)
                          (DataError (''Claude CLI exited with code '' @ show_code g code @ '': ''
                                        @ take 200 (p_stderr st)) ''server_error'')
                      else p_res st);
                r2 = sendSSE r1 (mk_chunk (requestId c) (created c) (model c) EmptyDelta
                                   (Some (closeFinishReason code (sentContent st))));
                r3 = res_end (res_write r2 Done)
            in (st\<lparr>finished := True, p_res := r3\<rparr>, releaseSlot a))
         else (st, a))"

definition onError :: "string \<Rightarrow> pstream \<times> int \<Rightarrow> pstream \<times> int" where
  "onError msg sa =
     (let st = fst sa; a = snd sa
      in if \<not> finished st then
           (st\<lparr>finished := True,
               p_res := res_end (res_write (res_write (p_res st) (DataError msg ''server_error'')) Done)\<rparr>,
            releaseSlot a)
         else (st, a))"

definition onResClose :: "pstream \<times> int \<Rightarrow> pstream \<times> int" where
  "onResClose sa =
     (let st = fst sa; a = snd sa
      in if \<not> finished st then (st\<lparr>finished := True, killed := True\<rparr>, releaseSlot a)
         else (st, a))"

datatype pevent =
    StdoutData string
  | StderrData string
  | ProcClose "int option"
  | ProcError string
  | ResClose

fun relayEvent ::
  "('x env_scheme) \<Rightarrow> ('y cfg_scheme) \<Rightarrow> ctx \<Rightarrow> pstream \<times> int \<Rightarrow> pevent \<Rightarrow> pstream \<times> int" where
  "relayEvent e g c sa (StdoutData d) = (onStdout e c (fst sa) d, snd sa)"
| "relayEvent e g c sa (StderrData d) = (onStderr (fst sa) d, snd sa)"
| "relayEvent e g c sa (ProcClose code) = onClose e g c code sa"
| "relayEvent e g c sa (ProcError msg) = onError msg sa"
| "relayEvent e g c sa ResClose = onResClose sa"

definition relay ::
  "('x env_scheme) \<Rightarrow> ('y cfg_scheme) \<Rightarrow> ctx \<Rightarrow> pstream \<times> int \<Rightarrow> pevent list \<Rightarrow> pstream \<times> int" where
  "relay e g c sa evs = foldl (relayEvent e g c) sa evs"

text \<open>The state in which the handlers are registered: the role chunk has been sent.\<close>

definition streamStart :: "ctx \<Rightarrow> pstream" where
  "streamStart c =
     \<lparr>p_buffer = [], p_stderr = [], sentContent = False, finished = False, killed = False,
      p_res = sendSSE fresh_res (mk_chunk (requestId c) (created c) (model c) RoleDelta None)\<rparr>"

section \<open>Process variant: the routes\<close>

text \<open>
  An inbound chat message as the process variant reads it: the role when it is a
  string, the content when it is neither \<open>undefined\<close> nor \<open>null\<close>, the optional name.
  A content is a string, an array of parts, or any other value; a part is a text part,
  another object, or \<open>null\<close>, on which the read of \<open>type\<close> throws.
\<close>

datatype cpart = TextP string | OtherP string | NullP

datatype ccontent = TextC string | PartsC "cpart list" | OtherC

record cmessage =
  cm_role :: "string option"
  cm_content :: "ccontent option"
  cm_name :: "string option"

text \<open>
  \<open>validateChatRequest\<close>. \<open>messages\<close> is \<open>None\<close> when the body has no array of that
  name; \<open>param_errors\<close> are the messages of the three checks on \<open>max_tokens\<close>,
  \<open>temperature\<close> and \<open>top_p\<close>, which come last.
\<close>

definition messageErrors :: "('y cfg_scheme) \<Rightarrow> nat \<Rightarrow> cmessage \<Rightarrow> string list" where
  "messageErrors g i msg =
     (if (case cm_role msg of None \<Rightarrow> True | Some r \<Rightarrow> r = [])
      then [''messages['' @ show_num g (int i) @ ''].role is required and must be a string'']
      else [])
     @ (if cm_content msg = None
        then [''messages['' @ show_num g (int i) @ ''].content is required'']
        else [])"

definition validateChatRequest ::
  "('y cfg_scheme) \<Rightarrow> cmessage list option \<Rightarrow> string list \<Rightarrow> string list" where
  "validateChatRequest g messages param_errors =
     (case messages of
        None \<Rightarrow> [''messages must be a non-empty array'']
      | Some ms \<Rightarrow>
          if length ms = 0 then [''messages array must not be empty'']
          else (if list_ex (\<lambda>m. cm_role m \<noteq> Some ''system'') ms then []
                else [''at least one non-system message is required''])
               @ concat (map (\<lambda>(i, m). messageErrors g i m) (enumerate 0 ms))
               @ param_errors)"

definition null_type :: string where
  "null_type = ''Cannot read properties of null (reading '' @ [CHR 0x27] @ ''type'' @ [CHR 0x27] @ '')''"

text \<open>\<open>extractTextContent\<close> of the process variant: the text, or the error it throws.\<close>

definition extractTextContent :: "ccontent option \<Rightarrow> string + string" where
  "extractTextContent content =
     (case content of
        Some (TextC s) \<Rightarrow> Inr s
      | Some (PartsC ps) \<Rightarrow>
          if list_ex (\<lambda>p. p = NullP) ps then Inl null_type
          else Inr (join NL (concat (map (\<lambda>p. case p of TextP t \<Rightarrow> [t] | _ \<Rightarrow> []) ps)))
      | _ \<Rightarrow> Inr [])"

text \<open>
  \<open>convertMessages\<close> of the process variant: the system prompt and the user prompt, or
  the error thrown on the way. The loop state is the system parts and the turns, each
  a role label and a content.
\<close>

fun collectTurns ::
  "string list \<times> (string \<times> string) list \<Rightarrow> cmessage list
     \<Rightarrow> string + (string list \<times> (string \<times> string) list)" where
  "collectTurns st [] = Inr st"
| "collectTurns (parts, turns) (msg # msgs) =
     (case extractTextContent (cm_content msg) of
        Inl err \<Rightarrow> Inl err
      | Inr content \<Rightarrow>
          if content = [] then collectTurns (parts, turns) msgs
          else if cm_role msg = Some ''system'' then
            collectTurns (parts @ [content], turns) msgs
          else if cm_role msg = Some ''user'' then
            collectTurns (parts, turns @ [(''Human'', content)]) msgs
          else if cm_role msg = Some ''assistant'' then
            collectTurns (parts, turns @ [(''Assistant'', content)]) msgs
          else if cm_role msg = Some ''function'' \<or> cm_role msg = Some ''tool'' then
            collectTurns
              (parts,
               turns @ [(''Human'',
                         ''[Tool result: ''
                         @ (case cm_name msg of
                              None \<Rightarrow> ''unknown''
                            | Some nm \<Rightarrow> if nm \<noteq> [] then nm else ''unknown'')
                         @ '']'' @ NL @ content)]) msgs
          else collectTurns (parts, turns) msgs)"

definition cliConvertMessages :: "cmessage list \<Rightarrow> string + (string option \<times> string)" where
  "cliConvertMessages messages =
     (if length messages = 0 then Inr (None, [])
      else
        (case collectTurns ([], []) messages of
           Inl err \<Rightarrow> Inl err
         | Inr (parts, turns) \<Rightarrow>
             Inr (if length parts > 0 then Some (join (NL @ NL) parts) else None,
                  (if length turns = 1 \<and> fst (hd turns) = ''Human'' then snd (hd turns)
                   else join (NL @ NL) (map (\<lambda>(role, content). role @ '': '' @ content) turns)))))"

text \<open>
  The synchronous part of \<open>POST /v1/chat/completions\<close>, up to the point where the
  handler waits for the process. \<open>spawn_error\<close> is the error that \<open>spawnClaude\<close>
  throws in the streaming branch, if it does.
  \<open>Replied\<close>: the handler returned a response before any call of \<open>spawnClaude\<close>.
  \<open>Threw\<close>: the handler threw outside every \<open>try\<close>; nothing was written and no
  statement after the throw ran. \<open>SpawnFailed\<close>: the call of \<open>spawnClaude\<close> threw and
  the \<open>catch\<close> replied. \<open>Streaming\<close>: the process runs and the stream handlers are
  registered. \<open>Awaiting\<close>: \<open>runClaudeNonStreaming\<close> was called with this prompt.
\<close>

datatype started =
    Replied res
  | Threw string
  | SpawnFailed res
  | Streaming pstream
  | Awaiting string

definition chatBegin ::
  "('y cfg_scheme) \<Rightarrow> ctx \<Rightarrow> cmessage list option \<Rightarrow> string list \<Rightarrow> bool \<Rightarrow> string option \<Rightarrow> int
     \<Rightarrow> started \<times> int" where
  "chatBegin g c messages param_errors stream spawn_error a =
     (let errors = validateChatRequest g messages param_errors
      in if length errors > 0 then
           (Replied (res_json fresh_res 400 (ErrorBody (join ''; '' errors) ''invalid_request_error'' None)), a)
         else
           (case acquireSlot (MAX_CONCURRENT g) a of
              (False, a') \<Rightarrow>
                (Replied (res_json fresh_res 429
                   (ErrorBody (''Too many concurrent requests (max '' @ show_num g (MAX_CONCURRENT g)
                                 @ ''). Try again later.'')
                      ''rate_limit_error'' (Some ''rate_limit_exceeded''))), a')
            | (True, a') \<Rightarrow>
                (case cliConvertMessages (case messages of None \<Rightarrow> [] | Some ms \<Rightarrow> ms) of
                   Inl err \<Rightarrow> (Threw err, a')
                 | Inr (systemPrompt, userPrompt) \<Rightarrow>
                     if stream then
                       (case spawn_error of
                          Some err \<Rightarrow>
                            (SpawnFailed
                               (res_end (res_write
                                  (res_write (p_res (streamStart c))
                                     (DataError ''Failed to start Claude CLI'' ''server_error'')) Done)),
                             releaseSlot a')
                        | None \<Rightarrow> (Streaming (streamStart c), a'))
                     else (Awaiting userPrompt, a'))))"

text \<open>The rest of the non-streaming route, run when the process has ended.\<close>

definition chatFinish ::
  "('x env_scheme) \<Rightarrow> ('y cfg_scheme) \<Rightarrow> (string \<Rightarrow> cli_output option) \<Rightarrow> ctx \<Rightarrow> string \<Rightarrow> proc_end
     \<Rightarrow> int \<Rightarrow> res \<times> int" where
  "chatFinish e g parse_cli c userPrompt pe a =
     (case runClaudeNonStreaming g parse_cli pe of
        Inr result \<Rightarrow>
          (res_json fresh_res 200
             (ChatCompletion
                \<lparr>cmpl_id = requestId c, cmpl_created = created c, cmpl_model = model c,
                 cmpl_message = \<lparr>msg_content = Some (cr_text result), msg_tool_calls = None\<rparr>,
                 cmpl_finish_reason = ''stop'',
                 cmpl_usage = cliUsage e userPrompt result\<rparr>),
           releaseSlot a)
      | Inl msg \<Rightarrow>
          (res_json fresh_res (if str_includes msg ''timed out'' then 504 else 500)
             (ErrorBody msg ''server_error'' (Some ''claude_cli_error'')),
           releaseSlot a))"

text \<open>
  \<open>POST /v1/completions\<close>, in the same two parts. A truthy prompt that is neither a
  string nor an array passes the check, and the call of its \<open>join\<close> throws after the
  slot was taken and before the \<open>try\<close>.
\<close>

definition no_join :: string where
  "no_join = ''req.body.prompt.join is not a function''"

definition completionsBegin :: "('y cfg_scheme) \<Rightarrow> prompt \<Rightarrow> int \<Rightarrow> started \<times> int" where
  "completionsBegin g pr a =
     (if pr = PNone \<or> (case pr of PStr s \<Rightarrow> s = [] \<or> trim s = [] | _ \<Rightarrow> False) then
        (Replied (res_json fresh_res 400
           (ErrorBody ''prompt is required and must be a non-empty string'' ''invalid_request_error'' None)), a)
      else
        (case acquireSlot (MAX_CONCURRENT g) a of
           (False, a') \<Rightarrow>
             (Replied (res_json fresh_res 429
                (ErrorBody (''Too many concurrent requests (max '' @ show_num g (MAX_CONCURRENT g) @ '').'')
                   ''rate_limit_error'' (Some ''rate_limit_exceeded''))), a')
         | (True, a') \<Rightarrow>
             (case pr of
                PStr s \<Rightarrow> (Awaiting s, a')
              | PList ss \<Rightarrow> (Awaiting (join NL ss), a')
              | _ \<Rightarrow> (Threw no_join, a'))))"

definition completionsFinish ::
  "('x env_scheme) \<Rightarrow> ('y cfg_scheme) \<Rightarrow> (string \<Rightarrow> cli_output option) \<Rightarrow> ctx \<Rightarrow> string \<Rightarrow> proc_end
     \<Rightarrow> int \<Rightarrow> res \<times> int" where
  "completionsFinish e g parse_cli c prompt_text pe a =
     (case runClaudeNonStreaming g parse_cli pe of
        Inr result \<Rightarrow>
          (res_json fresh_res 200
             (TextCompletion
                \<lparr>tc_cmpl_id = requestId c, tc_created = created c, tc_model = model c,
                 tc_text = cr_text result, tc_finish_reason = ''stop'',
                 tc_usage = cliUsage e prompt_text result\<rparr>),
           releaseSlot a)
      | Inl msg \<Rightarrow> (res_json fresh_res 500 (ErrorBody msg ''server_error'' None), releaseSlot a))"

section \<open>Predicates on streams\<close>

text \<open>
  The events of a process run that carry output. A plain frame is neither a finish
  chunk nor the sentinel nor an error object. A response is open while it has status
  200, no JSON body, only plain frames, and has not been ended; a streaming request is
  relaying while its response is open, it is not finished, and its \<open>sentContent\<close> flag
  says whether a content chunk has been written.
\<close>

fun is_output :: "pevent \<Rightarrow> bool" where
  "is_output (StdoutData d) = True"
| "is_output (StderrData d) = True"
| "is_output ev = False"

definition plain :: "frame \<Rightarrow> bool" where
  "plain f = (\<not> is_finish f \<and> f \<noteq> Done \<and> \<not> is_error_frame f)"

definition open_ok :: "res \<Rightarrow> bool" where
  "open_ok r = (list_all plain (frames r) \<and> headersSent r \<and> statusCode r = 200
                \<and> json_body r = None \<and> \<not> ended r)"

definition relaying :: "pstream \<Rightarrow> bool" where
  "relaying st = (open_ok (p_res st) \<and> \<not> finished st
                  \<and> (sentContent st \<longleftrightarrow> list_ex is_content (frames (p_res st))))"

section \<open>Vocabulary of the specification\<close>


text \<open>
  The in-order concatenation of a result's text blocks, its tool-invocation blocks, and
  what the specification says of the tool-call entry made from one of them: the
  block's identifier or a generated one (prefix \<open>call-\<close>), its name, and as arguments
  the serialization of its input (of the empty object when the input is absent or
  falsy).
\<close>

definition text_concat :: "rblock list \<Rightarrow> string" where
  "text_concat bs = concat (concat (map (\<lambda>b. case b of RText t \<Rightarrow> [t] | _ \<Rightarrow> []) bs))"

definition tool_uses :: "rblock list \<Rightarrow> rblock list" where
  "tool_uses bs = filter (\<lambda>b. case b of RToolUse i nm inp \<Rightarrow> True | _ \<Rightarrow> False) bs"

definition spec_tool_call :: "('x env_scheme) \<Rightarrow> rblock \<Rightarrow> tool_call_entry \<Rightarrow> bool" where
  "spec_tool_call e b entry =
     (case b of
        RToolUse bid name inp \<Rightarrow>
          (case bid of
             Some i \<Rightarrow> if i \<noteq> [] then tce_id entry = i else startsWith (tce_id entry) ''call-''
           | None \<Rightarrow> startsWith (tce_id entry) ''call-'')
          \<and> tce_name entry = name
          \<and> tce_arguments entry
              = JSON_stringify e (case inp of
                                    Some v \<Rightarrow> if truthy v then v else JObj []
                                  | None \<Rightarrow> JObj [])
      | _ \<Rightarrow> False)"

text \<open>
  The usage object of a response body, if it has one. A usage object is the code's sum
  when its total is the result of \<open>+\<close> on its two counts, and it adds up exactly when
  the three are numbers and the total is the sum of the other two as integers.
\<close>

definition usage_of :: "res \<Rightarrow> usage_out option" where
  "usage_of r =
     (case json_body r of
        Some (ChatCompletion cm) \<Rightarrow> Some (cmpl_usage cm)
      | Some (TextCompletion t) \<Rightarrow> Some (tc_usage t)
      | _ \<Rightarrow> None)"

definition js_sum :: "('x env_scheme) \<Rightarrow> usage_out \<Rightarrow> bool" where
  "js_sum e u = (total_tokens u = js_plus e (prompt_tokens u) (completion_tokens u))"

definition adds_up :: "usage_out \<Rightarrow> bool" where
  "adds_up u =
     (case (prompt_tokens u, completion_tokens u, total_tokens u) of
        (JNum p, JNum c, JNum t) \<Rightarrow> t = p + c
      | _ \<Rightarrow> False)"

text \<open>The events that end a streaming request: close, error and client disconnect.\<close>

definition ends_request :: "pevent \<Rightarrow> bool" where
  "ends_request ev = (\<not> is_output ev)"

section \<open>A concrete runtime for the examples\<close>

text \<open>Decimal printing of a number, as a template literal does it.\<close>

fun show_nat :: "nat \<Rightarrow> string" where
  "show_nat n = (if n < 10 then [''0123456789'' ! n]
                 else show_nat (n div 10) @ [''0123456789'' ! (n mod 10)])"

definition show_int :: "int \<Rightarrow> string" where
  "show_int i = (if i < 0 then ''-'' @ show_nat (nat (- i)) else show_nat (nat i))"

definition example_cfg :: cfg where
  "example_cfg = \<lparr>MAX_CONCURRENT = 2, CLI_TIMEOUT_MS = 300000, show_num = show_int\<rparr>"

definition example_ctx :: ctx where
  "example_ctx = \<lparr>requestId = ''chatcmpl-1'', created = 1700000000, model = ''claude-haiku-4-5''\<rparr>"

text \<open>
  A serializer for payloads, and the output lines of the examples with the events they
  denote. \<open>example_parse\<close> is \<open>JSON.parse\<close> on the strings of the examples: it yields
  the value of each line listed and fails on every other string, among them the
  truncated argument string used below.
\<close>

fun quote_str :: "string \<Rightarrow> string" where
  "quote_str s = [CHR 0x22] @ s @ [CHR 0x22]"

fun stringify :: "json \<Rightarrow> string" where
  "stringify JNull = ''null''"
| "stringify (JBool b) = (if b then ''true'' else ''false'')"
| "stringify (JNum n) = show_int n"
| "stringify (JStr s) = quote_str s"
| "stringify (JArr xs) = ''['' @ join '','' (map stringify xs) @ '']''"
| "stringify (JObj kvs) = ''{'' @ join '','' (map (\<lambda>(k, v). quote_str k @ '':'' @ stringify v) kvs) @ ''}''"

definition cli_line :: "string \<Rightarrow> string" where
  \<open>cli_line t = ''{"type":"stream_event","event":{"type":"content_block_delta","delta":{"text":"''
                 @ t @ ''"}}}''\<close>

definition cli_event :: "string \<Rightarrow> json" where
  "cli_event t = JObj [(''type'', JStr ''stream_event''),
                       (''event'', JObj [(''type'', JStr ''content_block_delta''),
                                         (''delta'', JObj [(''text'', JStr t)])])]"

definition sse_text :: "string \<Rightarrow> string" where
  \<open>sse_text t = ''{"type":"content_block_delta","delta":{"type":"text_delta","text":"'' @ t @ ''"}}''\<close>

definition sse_text_event :: "string \<Rightarrow> json" where
  "sse_text_event t = JObj [(''type'', JStr ''content_block_delta''),
                            (''delta'', JObj [(''type'', JStr ''text_delta''), (''text'', JStr t)])]"

definition sse_stop :: "string \<Rightarrow> string" where
  \<open>sse_stop r = ''{"type":"message_delta","delta":{"stop_reason":"'' @ r @ ''"}}''\<close>

definition sse_stop_event :: "string \<Rightarrow> json" where
  "sse_stop_event r = JObj [(''type'', JStr ''message_delta''),
                            (''delta'', JObj [(''stop_reason'', JStr r)])]"

definition example_parse :: "string \<Rightarrow> json option" where
  \<open>example_parse = map_of
     [(cli_line ''Hi'', cli_event ''Hi''),
      (cli_line '' there'', cli_event '' there''),
      (sse_text ''Hi'', sse_text_event ''Hi''),
      (sse_text '' there'', sse_text_event '' there''),
      (sse_stop ''tool_use'', sse_stop_event ''tool_use''),
      (''{"city":"Paris"}'', JObj [(''city'', JStr ''Paris'')])]\<close>

text \<open>
  The operator \<open>+\<close> on values that are not both numbers: with a string, an array or an
  object among them the texts are concatenated, otherwise \<open>null\<close> and the booleans
  count as numbers.
\<close>

fun prim_text :: "json \<Rightarrow> string" where
  "prim_text JNull = ''null''"
| "prim_text (JBool b) = (if b then ''true'' else ''false'')"
| "prim_text (JNum n) = show_int n"
| "prim_text (JStr s) = s"
| "prim_text (JArr xs) = join '','' (map (\<lambda>x. if x = JNull then [] else prim_text x) xs)"
| "prim_text (JObj kvs) = ''[object Object]''"

fun as_number :: "json \<Rightarrow> int option" where
  "as_number JNull = Some 0"
| "as_number (JBool b) = Some (if b then 1 else 0)"
| "as_number (JNum n) = Some n"
| "as_number v = None"

definition example_plus :: "json \<Rightarrow> json \<Rightarrow> json" where
  "example_plus x y =
     (case (as_number x, as_number y) of
        (Some a, Some b) \<Rightarrow> JNum (to_double (a + b))
      | _ \<Rightarrow> JStr (prim_text x @ prim_text y))"

definition example_env :: env where
  "example_env = \<lparr>AUTH_TOKEN = ''sk-ant-api03-example'', JSON_parse = example_parse,
                   JSON_stringify = stringify, randomBytes = (\<lambda>n. ''r'' @ show_nat n),
                   plus_other = example_plus\<rparr>"

definition two_chunks :: "pevent list" where
  "two_chunks = [StdoutData (cli_line ''Hi'' @ NL), StderrData ''boom'',
                 StdoutData (cli_line '' there'' @ NL)]"

definition failing_reads :: "read list" where
  "failing_reads = [ReadValue (''data: '' @ sse_text ''Hi'' @ NL @ ''data: '' @ sse_text '' there'' @ NL),
                    ReadThrow ''terminated'']"

definition hi_message :: message where
  "hi_message = \<lparr>m_role = ''user'', m_content = CStr ''hi'', m_tool_calls = None, m_tool_call_id = None\<rparr>"

definition tool_use_reads :: "read list" where
  "tool_use_reads = [ReadValue (''data: '' @ sse_stop ''tool_use'' @ NL)]"

text \<open>Example requests, results and process runs.\<close>

fun part_json :: "part \<Rightarrow> json" where
  "part_json (TextPart t) = JObj [(''type'', JStr ''text''), (''text'', JStr t)]"
| "part_json (ImageUrlPart u) =
     JObj [(''type'', JStr ''image_url''),
           (''image_url'', JObj (case u of None \<Rightarrow> [] | Some x \<Rightarrow> [(''url'', JStr x)]))]"
| "part_json (OtherPart ty) = JObj [(''type'', JStr ty)]"

definition example_stringify_content :: "mcontent \<Rightarrow> string" where
  "example_stringify_content c =
     stringify (case c of CStr s \<Rightarrow> JStr s | CParts ps \<Rightarrow> JArr (map part_json ps) | CNull \<Rightarrow> JNull)"

definition plain_message :: "string \<Rightarrow> string \<Rightarrow> message" where
  "plain_message r t = \<lparr>m_role = r, m_content = CStr t, m_tool_calls = None, m_tool_call_id = None\<rparr>"



definition weather_result :: api_result where
  "weather_result =
     \<lparr>r_content = Some [RText ''It is '',
                        RToolUse (Some ''toolu_1'') (Some ''get_weather'') (Some (JObj [(''city'', JStr ''Paris'')])),
                        RText ''sunny''],
      r_stop_reason = Some (JStr ''tool_use''),
      r_usage = Some \<lparr>input_tokens = Some (JNum 12), output_tokens = Some (JNum 7)\<rparr>\<rparr>"

definition empty_result :: api_result where
  "empty_result = \<lparr>r_content = Some [], r_stop_reason = Some (JStr ''end_turn''), r_usage = None\<rparr>"


definition fallback_result :: cli_result where
  "fallback_result = \<lparr>cr_text = ''hello world'', cr_usage = None\<rparr>"

definition fallback_run :: proc_end where
  "fallback_run = Closed (Some 0) ''hello world'' []"

text \<open>A result whose counts are \<open>2^53\<close> and 1.\<close>

definition huge_result :: api_result where
  "huge_result =
     \<lparr>r_content = Some [RText ''ok''], r_stop_reason = Some (JStr ''end_turn''),
      r_usage = Some \<lparr>input_tokens = Some (JNum 9007199254740992), output_tokens = Some (JNum 1)\<rparr>\<rparr>"

text \<open>
  Requests that pass the checks of the process variant and throw after the slot was
  taken: a chat message whose content is the array \<open>[null]\<close>, and (in the completions
  route) a prompt that is an object.
\<close>

definition null_part_message :: cmessage where
  "null_part_message = \<lparr>cm_role = Some ''user'', cm_content = Some (PartsC [NullP]), cm_name = None\<rparr>"

definition hello_message :: cmessage where
  "hello_message = \<lparr>cm_role = Some ''user'', cm_content = Some (TextC ''hello''), cm_name = None\<rparr>"

section \<open>Properties of the admission controller\<close>

lemma slot_step_bounds:
  "0 \<le> a \<Longrightarrow> a \<le> N \<Longrightarrow> 0 \<le> slot_step N a c \<and> slot_step N a c \<le> N"
  by (cases c) (auto simp: acquireSlot_def releaseSlot_def)

lemma slot_run_bounds:
  "0 \<le> a \<Longrightarrow> a \<le> N \<Longrightarrow> 0 \<le> slot_run N a cs \<and> slot_run N a cs \<le> N"
  unfolding slot_run_def
proof (induction cs arbitrary: a)
  case Nil
  then show ?case by simp
next
  case (Cons c cs)
  from slot_step_bounds [OF Cons.prems] show ?case
    by (simp add: Cons.IH)
qed

lemma acquire_run_min:
  "0 \<le> N \<Longrightarrow> slot_run N 0 (replicate k Acquire) = min (int k) N"
proof (induction k)
  case 0
  then show ?case by (simp add: slot_run_def)
next
  case (Suc k)
  have "replicate (Suc k) Acquire = replicate k Acquire @ [Acquire]"
    by (simp add: replicate_append_same)
  then have "slot_run N 0 (replicate (Suc k) Acquire)
             = slot_step N (slot_run N 0 (replicate k Acquire)) Acquire"
    by (simp add: slot_run_def del: replicate_Suc)
  with Suc show ?case
    by (auto simp: acquireSlot_def)
qed

text \<open>
  C9. The in-flight counter stays within 0 and the capacity: every interleaving of
  \<open>acquireSlot\<close> and \<open>releaseSlot\<close> calls that starts within the interval ends within it;
  \<open>acquireSlot\<close> adds one only when the counter is strictly below the capacity, and
  \<open>releaseSlot\<close> never yields a negative counter, whatever the counter was (at zero it
  stays at zero).
\<close>

theorem counter_stays_in_range:
  assumes "0 \<le> a" and "a \<le> N"
  shows "0 \<le> slot_run N a cs \<and> slot_run N a cs \<le> N
         \<and> snd (acquireSlot N b) = (if b < N then b + 1 else b)
         \<and> 0 \<le> releaseSlot b \<and> releaseSlot 0 = 0"
  using slot_run_bounds [OF assms]
  by (simp add: acquireSlot_def releaseSlot_def)

theorem counter_stays_in_range_witness:
  "(0::int) \<le> 0 \<and> (0::int) \<le> 2
   \<and> slot_run 2 0 [Acquire, Acquire, Acquire, Release, Release, Release, Release, Acquire] = 1
   \<and> 0 \<le> slot_run 2 0 [Acquire, Acquire, Acquire, Release, Release, Release, Release, Acquire]
   \<and> slot_run 2 0 [Acquire, Acquire, Acquire, Release, Release, Release, Release, Acquire] \<le> 2
   \<and> snd (acquireSlot 2 2) = 2 \<and> 0 \<le> releaseSlot (- 5)"
  using counter_stays_in_range [of 0 2 "[Acquire, Acquire, Acquire, Release, Release, Release, Release, Acquire]" 2]
        counter_stays_in_range [of 0 2 "[]" "- 5"]
  by (simp add: slot_run_def acquireSlot_def releaseSlot_def)

text \<open>
  What the admission controller and its callers do with the counter. \<open>acquireSlot\<close>
  is a test and an increment; a valid chat request below capacity whose messages
  convert holds one slot more when the process runs, and gives it back at once when
  the spawn fails; a completion request with a string or a list prompt holds one slot
  more; the non-streaming routes give the slot back however the process ends; a
  streaming request gives it back once, at the first close, error or client
  disconnect, and not before.
\<close>

lemma acquireSlot_admits:
  "acquireSlot N a = (if a < N then (True, a + 1) else (False, a))"
  by (simp add: acquireSlot_def)

lemma chatBegin_full:
  assumes "validateChatRequest g messages param_errors = []" and "MAX_CONCURRENT g \<le> a"
  shows "chatBegin g c messages param_errors stream spawn_error a
           = (Replied (res_json fresh_res 429
                (ErrorBody (''Too many concurrent requests (max '' @ show_num g (MAX_CONCURRENT g)
                              @ ''). Try again later.'')
                   ''rate_limit_error'' (Some ''rate_limit_exceeded''))), a)"
  using assms by (simp add: chatBegin_def acquireSlot_def)

lemma chatBegin_admitted:
  assumes "validateChatRequest g (Some ms) param_errors = []" and "a < MAX_CONCURRENT g"
    and "cliConvertMessages ms = Inr (systemPrompt, userPrompt)"
  shows "chatBegin g c (Some ms) param_errors stream spawn_error a
           = (if stream then
                (case spawn_error of
                   None \<Rightarrow> (Streaming (streamStart c), a + 1)
                 | Some err \<Rightarrow>
                     (SpawnFailed
                        (res_end (res_write
                           (res_write (p_res (streamStart c))
                              (DataError ''Failed to start Claude CLI'' ''server_error'')) Done)),
                      releaseSlot (a + 1)))
              else (Awaiting userPrompt, a + 1))"
  using assms by (simp add: chatBegin_def acquireSlot_def split: option.splits)

lemma chatBegin_throws:
  assumes "validateChatRequest g (Some ms) param_errors = []" and "a < MAX_CONCURRENT g"
    and "cliConvertMessages ms = Inl err"
  shows "chatBegin g c (Some ms) param_errors stream spawn_error a = (Threw err, a + 1)"
  using assms by (simp add: chatBegin_def acquireSlot_def)

lemma trim_Nil: "trim [] = []"
  by (simp add: trim_def)

lemma completionsBegin_full:
  assumes "pr = PList ss \<or> pr = POther \<or> (pr = PStr s \<and> trim s \<noteq> [])" and "MAX_CONCURRENT g \<le> a"
  shows "completionsBegin g pr a
           = (Replied (res_json fresh_res 429
                (ErrorBody (''Too many concurrent requests (max '' @ show_num g (MAX_CONCURRENT g) @ '').'')
                   ''rate_limit_error'' (Some ''rate_limit_exceeded''))), a)"
  using assms by (auto simp: completionsBegin_def acquireSlot_def trim_Nil)

lemma completionsBegin_admitted:
  assumes "a < MAX_CONCURRENT g"
  shows "completionsBegin g (PList ss) a = (Awaiting (join NL ss), a + 1)"
    and "trim s \<noteq> [] \<Longrightarrow> completionsBegin g (PStr s) a = (Awaiting s, a + 1)"
    and "completionsBegin g POther a = (Threw no_join, a + 1)"
  using assms by (auto simp: completionsBegin_def acquireSlot_def trim_Nil)

lemma finish_releases:
  "snd (chatFinish e g parse_cli c userPrompt pe a) = releaseSlot a"
  "snd (completionsFinish e g parse_cli c prompt_text pe a) = releaseSlot a"
  by (simp_all add: chatFinish_def completionsFinish_def split: sum.splits)

lemma relayPiece_finished:
  "finished (relayPiece e c st line) = finished st"
  by (simp add: relayPiece_def Let_def split: option.splits prod.splits)

lemma foldl_relayPiece_finished:
  "finished (foldl (relayPiece e c) st ls) = finished st"
  by (induction ls arbitrary: st) (simp_all add: relayPiece_finished)

lemma relayEvent_counter:
  "snd (relayEvent e g c (st, a) ev)
     = (if ends_request ev \<and> \<not> finished st then releaseSlot a else a)
   \<and> (finished (fst (relayEvent e g c (st, a) ev)) \<longleftrightarrow> finished st \<or> ends_request ev)"
  by (cases ev)
     (simp_all add: ends_request_def onStdout_def onStderr_def onClose_def onError_def
        onResClose_def Let_def foldl_relayPiece_finished relayPiece_finished)

lemma relay_releases_once:
  "snd (relay e g c (st, a) evs)
     = (if list_ex ends_request evs \<and> \<not> finished st then releaseSlot a else a)
   \<and> (finished (fst (relay e g c (st, a) evs)) \<longleftrightarrow> finished st \<or> list_ex ends_request evs)"
  unfolding relay_def
proof (induction evs arbitrary: st a)
  case Nil
  show ?case by simp
next
  case (Cons ev evs)
  obtain st1 a1 where step: "relayEvent e g c (st, a) ev = (st1, a1)"
    by (cases "relayEvent e g c (st, a) ev")
  from relayEvent_counter [of e g c st a ev] step
  have a1: "a1 = (if ends_request ev \<and> \<not> finished st then releaseSlot a else a)"
    and f1: "finished st1 \<longleftrightarrow> finished st \<or> ends_request ev"
    by simp_all
  from Cons.IH [of st1 a1] a1 f1 show ?case
    by (simp add: step)
qed

text \<open>
  C6. The claim fails on both routes of the process variant, with capacity 2 and an
  idle pool. A completion request whose prompt is an object passes the check, takes a
  slot and throws at the call of \<open>join\<close>, outside the \<open>try\<close> whose handlers release:
  the counter stays at 1 with no execution running, the next request is admitted, and
  the one after it, the second concurrent execution, is refused with status 429. A
  chat request whose only message has the content \<open>[null]\<close> passes the validation,
  takes a slot and throws in \<open>convertMessages\<close> in the same way.
\<close>

theorem thrown_request_keeps_its_slot:
  "MAX_CONCURRENT example_cfg = 2
   \<and> completionsBegin example_cfg POther 0 = (Threw no_join, 1)
   \<and> completionsBegin example_cfg (PStr ''hi'') 1 = (Awaiting ''hi'', 2)
   \<and> completionsBegin example_cfg (PStr ''hi'') 2
       = (Replied (res_json fresh_res 429
            (ErrorBody ''Too many concurrent requests (max 2).''
               ''rate_limit_error'' (Some ''rate_limit_exceeded''))), 2)
   \<and> validateChatRequest example_cfg (Some [null_part_message]) [] = []
   \<and> chatBegin example_cfg example_ctx (Some [null_part_message]) [] False None 0 = (Threw null_type, 1)
   \<and> chatBegin example_cfg example_ctx (Some [hello_message]) [] False None 1 = (Awaiting ''hello'', 2)
   \<and> chatBegin example_cfg example_ctx (Some [hello_message]) [] False None 2
       = (Replied (res_json fresh_res 429
            (ErrorBody ''Too many concurrent requests (max 2). Try again later.''
               ''rate_limit_error'' (Some ''rate_limit_exceeded''))), 2)"
  by code_simp

section \<open>Properties of the process variant's streaming relay\<close>

lemma plain_chunk:
  "plain (Data (mk_chunk i t m d None))"
  by (simp add: plain_def mk_chunk_def)

lemma open_ok_sendSSE:
  "open_ok r \<Longrightarrow> open_ok (sendSSE r (mk_chunk i t m d None))"
  by (simp add: open_ok_def sendSSE_def res_write_def plain_chunk)

lemma handleStreamEvent_cases:
  "handleStreamEvent c ev r = (r, False)
   \<or> (\<exists>t. handleStreamEvent c ev r
          = (sendSSE r (mk_chunk (requestId c) (created c) (model c) (ContentDelta t) None), True))"
  by (auto simp: handleStreamEvent_def split: option.splits)

lemma relaying_relayPiece:
  assumes "relaying st"
  shows "relaying (relayPiece e c st line)"
proof (cases "trim line = []")
  case True
  with assms show ?thesis by (simp add: relayPiece_def)
next
  case False
  show ?thesis
  proof (cases "JSON_parse e line")
    case None
    with False assms show ?thesis by (simp add: relayPiece_def)
  next
    case (Some ev)
    from handleStreamEvent_cases [of c ev "p_res st"] show ?thesis
    proof
      assume "handleStreamEvent c ev (p_res st) = (p_res st, False)"
      with False Some assms show ?thesis
        by (simp add: relayPiece_def relaying_def)
    next
      assume "\<exists>t. handleStreamEvent c ev (p_res st)
          = (sendSSE (p_res st) (mk_chunk (requestId c) (created c) (model c) (ContentDelta t) None), True)"
      then obtain t where "handleStreamEvent c ev (p_res st)
          = (sendSSE (p_res st) (mk_chunk (requestId c) (created c) (model c) (ContentDelta t) None), True)"
        by blast
      with False Some assms open_ok_sendSSE [of "p_res st"] show ?thesis
        by (simp add: relayPiece_def relaying_def sendSSE_def res_write_def mk_chunk_def)
    qed
  qed
qed

lemma relayPiece_keeps:
  "p_stderr (relayPiece e c st line) = p_stderr st
   \<and> (\<exists>extra. frames (p_res (relayPiece e c st line)) = frames (p_res st) @ extra)"
proof (cases "JSON_parse e line")
  case None
  then show ?thesis by (simp add: relayPiece_def)
next
  case (Some ev)
  from handleStreamEvent_cases [of c ev "p_res st"] Some show ?thesis
    by (auto simp: relayPiece_def sendSSE_def res_write_def)
qed

lemma relaying_foldl_relayPiece:
  "relaying st \<Longrightarrow> relaying (foldl (relayPiece e c) st ls)"
  by (induction ls arbitrary: st) (simp_all add: relaying_relayPiece)

lemma relaying_onStdout:
  "relaying st \<Longrightarrow> relaying (onStdout e c st d)"
  unfolding onStdout_def Let_def
  by (rule relaying_foldl_relayPiece) (simp add: relaying_def)

lemma relaying_onStderr:
  "relaying st \<Longrightarrow> relaying (onStderr st d)"
  by (simp add: relaying_def onStderr_def)

lemma relayEvent_output:
  "is_output ev \<Longrightarrow> relaying (fst sa) \<Longrightarrow>
     relaying (fst (relayEvent e g c sa ev)) \<and> snd (relayEvent e g c sa ev) = snd sa"
  by (cases ev) (simp_all add: relaying_onStdout relaying_onStderr)

lemma relay_outputs:
  "list_all is_output evs \<Longrightarrow> relaying (fst sa) \<Longrightarrow>
     relaying (fst (relay e g c sa evs)) \<and> snd (relay e g c sa evs) = snd sa"
  unfolding relay_def
proof (induction evs arbitrary: sa)
  case Nil
  then show ?case by simp
next
  case (Cons ev evs)
  from Cons.prems have "is_output ev" and rest: "list_all is_output evs" by simp_all
  with Cons.prems relayEvent_output [of ev sa e g c]
  have step: "relaying (fst (relayEvent e g c sa ev))" "snd (relayEvent e g c sa ev) = snd sa"
    by simp_all
  from Cons.IH [OF rest step(1)] step(2) show ?case by simp
qed

lemma relaying_start: "relaying (streamStart c)"
  by (simp add: relaying_def streamStart_def open_ok_def fresh_res_def sendSSE_def res_write_def
      plain_def mk_chunk_def)

text \<open>What the close handler writes when the request is still relaying.\<close>

lemma onClose_relaying:
  assumes "relaying st"
  shows "\<exists>pre. list_all plain pre
           \<and> (list_ex is_content (frames (p_res st)) \<longrightarrow> list_ex is_content pre)
           \<and> frames (p_res (fst (onClose e g c code (st, a))))
               = pre @ (if code \<noteq> Some 0 \<and> \<not> list_ex is_content pre
                        then [DataError (''Claude CLI exited with code '' @ show_code g code @ '': ''
                                           @ take 200 (p_stderr st)) ''server_error'']
                        else [])
                     @ [Data (mk_chunk (requestId c) (created c) (model c) EmptyDelta
                                (Some (if code = Some 0 \<or> list_ex is_content pre then ''stop'' else ''error''))),
                        Done]
           \<and> statusCode (p_res (fst (onClose e g c code (st, a)))) = 200
           \<and> json_body (p_res (fst (onClose e g c code (st, a)))) = None
           \<and> ended (p_res (fst (onClose e g c code (st, a))))
           \<and> finished (fst (onClose e g c code (st, a)))
           \<and> snd (onClose e g c code (st, a)) = releaseSlot a
           \<and> (sentContent (fst (onClose e g c code (st, a))) \<longleftrightarrow> list_ex is_content pre)"
proof -
  define fl where "fl = (if trim (p_buffer st) \<noteq> [] then relayPiece e c st (p_buffer st) else st)"
  have fl: "relaying fl"
    using assms by (simp add: fl_def relaying_relayPiece)
  from relayPiece_keeps [of e c st "p_buffer st"]
  have err: "p_stderr fl = p_stderr st"
    and more: "\<exists>extra. frames (p_res fl) = frames (p_res st) @ extra"
    by (auto simp: fl_def)
  from more have mono: "list_ex is_content (frames (p_res st)) \<longrightarrow> list_ex is_content (frames (p_res fl))"
    by auto
  have "frames (p_res (fst (onClose e g c code (st, a))))
          = frames (p_res fl) @ (if code \<noteq> Some 0 \<and> \<not> list_ex is_content (frames (p_res fl))
                        then [DataError (''Claude CLI exited with code '' @ show_code g code @ '': ''
                                           @ take 200 (p_stderr st)) ''server_error'']
                        else [])
                     @ [Data (mk_chunk (requestId c) (created c) (model c) EmptyDelta
                                (Some (if code = Some 0 \<or> list_ex is_content (frames (p_res fl)) then ''stop'' else ''error''))),
                        Done]"
    using fl err
    by (simp add: onClose_def fl_def [symmetric] Let_def relaying_def closeFinishReason_def
        sendSSE_def res_write_def res_end_def)
  moreover have "statusCode (p_res (fst (onClose e g c code (st, a)))) = 200
           \<and> json_body (p_res (fst (onClose e g c code (st, a)))) = None
           \<and> ended (p_res (fst (onClose e g c code (st, a))))
           \<and> finished (fst (onClose e g c code (st, a)))
           \<and> snd (onClose e g c code (st, a)) = releaseSlot a"
    using fl
    by (simp add: onClose_def fl_def [symmetric] Let_def relaying_def open_ok_def
        sendSSE_def res_write_def res_end_def)
  moreover have "list_all plain (frames (p_res fl))"
    using fl by (simp add: relaying_def open_ok_def)
  moreover have "sentContent (fst (onClose e g c code (st, a))) \<longleftrightarrow> list_ex is_content (frames (p_res fl))"
    using fl
    by (simp add: onClose_def fl_def [symmetric] Let_def relaying_def)
  ultimately show ?thesis using mono by blast
qed

lemma relay_snoc:
  "relay e g c sa (evs @ [ev]) = relayEvent e g c (relay e g c sa evs) ev"
  by (simp add: relay_def)

lemma close_after_outputs:
  assumes "list_all is_output evs"
  shows "\<exists>pre. list_all plain pre
           \<and> (list_ex is_content (frames (p_res (fst (relay e g c (streamStart c, a) evs))))
                \<longrightarrow> list_ex is_content pre)
           \<and> frames (p_res (fst (relay e g c (streamStart c, a) (evs @ [ProcClose code]))))
               = pre @ (if code \<noteq> Some 0 \<and> \<not> list_ex is_content pre
                        then [DataError (''Claude CLI exited with code '' @ show_code g code @ '': ''
                                 @ take 200 (p_stderr (fst (relay e g c (streamStart c, a) evs)))) ''server_error'']
                        else [])
                     @ [Data (mk_chunk (requestId c) (created c) (model c) EmptyDelta
                                (Some (if code = Some 0 \<or> list_ex is_content pre then ''stop'' else ''error''))),
                        Done]
           \<and> statusCode (p_res (fst (relay e g c (streamStart c, a) (evs @ [ProcClose code])))) = 200
           \<and> json_body (p_res (fst (relay e g c (streamStart c, a) (evs @ [ProcClose code])))) = None
           \<and> ended (p_res (fst (relay e g c (streamStart c, a) (evs @ [ProcClose code]))))
           \<and> finished (fst (relay e g c (streamStart c, a) (evs @ [ProcClose code])))
           \<and> snd (relay e g c (streamStart c, a) (evs @ [ProcClose code])) = releaseSlot a
           \<and> (sentContent (fst (relay e g c (streamStart c, a) (evs @ [ProcClose code])))
                \<longleftrightarrow> list_ex is_content pre)"
proof -
  define st where "st = fst (relay e g c (streamStart c, a) evs)"
  from relay_outputs [OF assms, of "(streamStart c, a)" e g c]
  have rel: "relaying st" and cnt: "snd (relay e g c (streamStart c, a) evs) = a"
    by (simp_all add: relaying_start st_def)
  have before: "relay e g c (streamStart c, a) evs = (st, a)"
    using cnt by (simp add: st_def prod_eq_iff)
  have after: "relay e g c (streamStart c, a) (evs @ [ProcClose code]) = onClose e g c code (st, a)"
    by (simp only: relay_snoc before relayEvent.simps)
  show ?thesis
    unfolding after st_def [symmetric]
    by (rule onClose_relaying [OF rel])
qed

section \<open>Properties of the direct-call variant's streaming translator\<close>

lemma open_ok_onTextDelta:
  "open_ok (d_res st) \<Longrightarrow> open_ok (d_res (onTextDelta c ev st))"
  by (simp add: onTextDelta_def open_ok_sendSSE split: option.splits)

lemma open_ok_onToolUseStart:
  "open_ok (d_res st) \<Longrightarrow> open_ok (d_res (onToolUseStart e c ev st))"
  by (simp add: onToolUseStart_def Let_def open_ok_sendSSE split: option.splits prod.splits)

lemma open_ok_onInputJsonDelta:
  "open_ok (d_res st) \<Longrightarrow> open_ok (d_res (onInputJsonDelta c ev st))"
  by (simp add: onInputJsonDelta_def open_ok_sendSSE split: option.splits)

lemma open_ok_onMessageDelta:
  "open_ok (d_res st) \<Longrightarrow> open_ok (d_res (onMessageDelta ev st))"
  by (simp add: onMessageDelta_def split: option.splits)

lemma open_ok_handleEvent:
  "open_ok (d_res st) \<Longrightarrow> open_ok (d_res (handleEvent e c ev st))"
  unfolding handleEvent_def
  by (intro open_ok_onMessageDelta open_ok_onInputJsonDelta open_ok_onToolUseStart open_ok_onTextDelta)

lemma open_ok_handleLine:
  "open_ok (d_res st) \<Longrightarrow> open_ok (d_res (handleLine e c st line))"
  by (simp add: handleLine_def Let_def open_ok_handleEvent split: option.splits)

lemma open_ok_foldl_handleLine:
  "open_ok (d_res st) \<Longrightarrow> open_ok (d_res (foldl (handleLine e c) st ls))"
  by (induction ls arbitrary: st) (simp_all add: open_ok_handleLine)

lemma open_ok_handleRead:
  "open_ok (d_res st) \<Longrightarrow> open_ok (d_res (handleRead e c st v))"
  unfolding handleRead_def Let_def
  by (rule open_ok_foldl_handleLine) simp

lemma open_ok_readLoop:
  "open_ok (d_res st) \<Longrightarrow> open_ok (d_res (fst (readLoop e c st reads)))"
  by (induction e c st reads rule: readLoop.induct) (simp_all add: open_ok_handleRead)

lemma finishReasonOf_range:
  "finishReasonOf r \<in> {''stop'', ''length'', ''tool_calls''}"
  by (simp add: finishReasonOf_def mapStopReason_def)

lemma open_ok_streamOpened: "open_ok (d_res (streamOpened c fresh_res n))"
  by (simp add: streamOpened_def open_ok_def fresh_res_def sendSSE_def res_write_def plain_def
      mk_chunk_def)

lemma handleStreaming_body:
  "fst (handleStreaming e c r (Inr (Body reads)) n)
     = res_end (res_write (sendSSE (d_res (fst (readLoop e c (streamOpened c r n) reads)))
         (mk_chunk (requestId c) (created c) (model c) EmptyDelta
            (Some (finishReasonOf (Some (stopReason (fst (readLoop e c (streamOpened c r n) reads)))))))) Done)"
  by (simp add: handleStreaming_def Let_def split: prod.splits)

lemma handleStreaming_end:
  "frames (fst (handleStreaming e c fresh_res (Inr (Body reads)) n))
     = frames (d_res (fst (readLoop e c (streamOpened c fresh_res n) reads)))
       @ [Data (mk_chunk (requestId c) (created c) (model c) EmptyDelta
            (Some (finishReasonOf (Some (stopReason (fst (readLoop e c (streamOpened c fresh_res n) reads))))))),
          Done]
   \<and> list_all plain (frames (d_res (fst (readLoop e c (streamOpened c fresh_res n) reads))))"
proof -
  have "open_ok (d_res (fst (readLoop e c (streamOpened c fresh_res n) reads)))"
    by (rule open_ok_readLoop) (rule open_ok_streamOpened)
  then show ?thesis
    unfolding handleStreaming_body
    by (simp add: open_ok_def sendSSE_def res_write_def res_end_def)
qed

lemma handleStreaming_frames:
  "\<exists>pre fr. list_all plain pre
      \<and> fr \<in> {''stop'', ''length'', ''tool_calls''}
      \<and> frames (fst (handleStreaming e c fresh_res (Inr (Body reads)) n))
          = pre @ [Data (mk_chunk (requestId c) (created c) (model c) EmptyDelta (Some fr)), Done]
      \<and> headersSent (fst (handleStreaming e c fresh_res (Inr (Body reads)) n))
      \<and> statusCode (fst (handleStreaming e c fresh_res (Inr (Body reads)) n)) = 200
      \<and> json_body (fst (handleStreaming e c fresh_res (Inr (Body reads)) n)) = None
      \<and> ended (fst (handleStreaming e c fresh_res (Inr (Body reads)) n))"
proof -
  define st where "st = fst (readLoop e c (streamOpened c fresh_res n) reads)"
  have ok: "open_ok (d_res st)"
    unfolding st_def by (rule open_ok_readLoop) (rule open_ok_streamOpened)
  have res: "fst (handleStreaming e c fresh_res (Inr (Body reads)) n)
      = res_end (res_write (sendSSE (d_res st)
          (mk_chunk (requestId c) (created c) (model c) EmptyDelta
             (Some (finishReasonOf (Some (stopReason st)))))) Done)"
    unfolding st_def by (rule handleStreaming_body)
  from ok finishReasonOf_range [of "Some (stopReason st)"] show ?thesis
    unfolding res
    by (intro exI [of _ "frames (d_res st)"] exI [of _ "finishReasonOf (Some (stopReason st))"])
       (simp add: open_ok_def sendSSE_def res_write_def res_end_def)
qed

lemma chat_completions_streamed:
  assumes "ms \<noteq> []" and "AUTH_TOKEN e \<noteq> []"
  shows "\<exists>c k. fst (chat_completions e sc mdl now (Some ms) (Streamed (Inr (Body reads))) n)
           = fst (handleStreaming e c fresh_res (Inr (Body reads)) k)
         \<and> requestId c = fst (genId e ''chatcmpl'' n) \<and> created c = now \<and> model c = mdl"
proof -
  obtain nat_req n2 where conv: "convertMessages e sc (Suc n) ms = (nat_req, n2)"
    by (cases "convertMessages e sc (Suc n) ms")
  define c where "c = \<lparr>requestId = fst (genId e ''chatcmpl'' n), created = now, model = mdl\<rparr>"
  obtain r thrown n3 where hs: "handleStreaming e c fresh_res (Inr (Body reads)) n2 = (r, thrown, n3)"
    by (cases "handleStreaming e c fresh_res (Inr (Body reads)) n2")
  from handleStreaming_frames [of e c reads n2] hs have sent: "headersSent r"
    by auto
  from assms conv hs sent
  have "fst (chat_completions e sc mdl now (Some ms) (Streamed (Inr (Body reads))) n) = r"
    by (simp add: chat_completions_def genId_def c_def split: option.splits)
  with hs show ?thesis
    by (intro exI [of _ c] exI [of _ n2]) (simp add: c_def)
qed

text \<open>How one event of the backend's stream changes the recorded stop reason.\<close>

lemma stopReason_handleEvent:
  "stopReason (handleEvent e c ev s)
     = (case field_opt ''stop_reason'' (field ''delta'' ev) of
          Some sr \<Rightarrow> if is_lit (field ''type'' ev) ''message_delta'' \<and> truthy sr then sr
                     else stopReason s
        | None \<Rightarrow> stopReason s)"
  by (simp add: handleEvent_def onMessageDelta_def onInputJsonDelta_def onToolUseStart_def
      onTextDelta_def truthy_opt_def Let_def split: option.splits prod.splits)

section \<open>Stream end\<close>

text \<open>
  C1. A streaming request whose backend ends abnormally after content was emitted.
  Process variant: after any sequence of output events that wrote at least one content
  chunk, a close with an exit code other than 0 (\<open>None\<close> is a kill by signal) leaves
  the written frames as plain frames followed by exactly one finish chunk (empty delta,
  a finish reason) and then the sentinel, no error object among them, with status 200
  and no JSON error body. Direct-call variant: for a valid request with a configured
  token and a backend response with a body, whatever the body delivers, a thrown read
  included, the route's response is plain frames, one finish chunk, the sentinel,
  status 200 and no JSON body.
\<close>

theorem partial_stream_failure_closes_cleanly:
  assumes "list_all is_output evs"
    and "list_ex is_content (frames (p_res (fst (relay e g c (streamStart c, a) evs))))"
    and "code \<noteq> Some 0"
    and "ms \<noteq> []" and "AUTH_TOKEN e \<noteq> []"
  shows "(\<exists>pre fr. list_all plain pre
            \<and> frames (p_res (fst (relay e g c (streamStart c, a) (evs @ [ProcClose code]))))
                = pre @ [Data (mk_chunk (requestId c) (created c) (model c) EmptyDelta (Some fr)), Done])
         \<and> statusCode (p_res (fst (relay e g c (streamStart c, a) (evs @ [ProcClose code])))) = 200
         \<and> json_body (p_res (fst (relay e g c (streamStart c, a) (evs @ [ProcClose code])))) = None
         \<and> ended (p_res (fst (relay e g c (streamStart c, a) (evs @ [ProcClose code]))))
         \<and> (\<exists>pre fr rid. list_all plain pre
              \<and> frames (fst (chat_completions e sc mdl now (Some ms) (Streamed (Inr (Body reads))) n))
                  = pre @ [Data (mk_chunk rid now mdl EmptyDelta (Some fr)), Done])
         \<and> statusCode (fst (chat_completions e sc mdl now (Some ms) (Streamed (Inr (Body reads))) n)) = 200
         \<and> json_body (fst (chat_completions e sc mdl now (Some ms) (Streamed (Inr (Body reads))) n)) = None
         \<and> ended (fst (chat_completions e sc mdl now (Some ms) (Streamed (Inr (Body reads))) n))"
proof -
  let ?r = "p_res (fst (relay e g c (streamStart c, a) (evs @ [ProcClose code])))"
  let ?d = "fst (chat_completions e sc mdl now (Some ms) (Streamed (Inr (Body reads))) n)"
  from close_after_outputs [OF assms(1), of e g c a code]
  obtain pre where pre: "list_all plain pre"
    and cont: "list_ex is_content (frames (p_res (fst (relay e g c (streamStart c, a) evs))))
                \<longrightarrow> list_ex is_content pre"
    and fr0: "frames ?r
               = pre @ (if code \<noteq> Some 0 \<and> \<not> list_ex is_content pre
                        then [DataError (''Claude CLI exited with code '' @ show_code g code @ '': ''
                                 @ take 200 (p_stderr (fst (relay e g c (streamStart c, a) evs)))) ''server_error'']
                        else [])
                     @ [Data (mk_chunk (requestId c) (created c) (model c) EmptyDelta
                                (Some (if code = Some 0 \<or> list_ex is_content pre then ''stop'' else ''error''))),
                        Done]"
    and st: "statusCode ?r = 200" "json_body ?r = None" "ended ?r"
    by blast
  from cont assms(2) have "list_ex is_content pre" by simp
  with fr0 have fr: "frames ?r
      = pre @ [Data (mk_chunk (requestId c) (created c) (model c) EmptyDelta (Some ''stop'')), Done]"
    by simp
  from chat_completions_streamed [OF assms(4,5), of sc mdl now reads n]
  obtain c' k where d: "?d = fst (handleStreaming e c' fresh_res (Inr (Body reads)) k)"
    and c': "created c' = now" "model c' = mdl"
    by blast
  from handleStreaming_frames [of e c' reads k] d c'
  have "(\<exists>pre fr rid. list_all plain pre
              \<and> frames ?d = pre @ [Data (mk_chunk rid now mdl EmptyDelta (Some fr)), Done])
         \<and> statusCode ?d = 200 \<and> json_body ?d = None \<and> ended ?d"
    by auto
  with pre fr st show ?thesis by blast
qed

text \<open>
  The scenario of two content chunks followed by exit code 1 (process variant) and by a
  failing read (direct-call variant).
\<close>

theorem partial_stream_failure_closes_cleanly_witness:
  "list_all is_output two_chunks
   \<and> list_ex is_content (frames (p_res (fst (relay example_env example_cfg example_ctx
                                             (streamStart example_ctx, 1) two_chunks))))
   \<and> Some 1 \<noteq> Some (0::int)
   \<and> [hi_message] \<noteq> [] \<and> AUTH_TOKEN example_env \<noteq> []
   \<and> (\<exists>pre fr. list_all plain pre
         \<and> frames (p_res (fst (relay example_env example_cfg example_ctx (streamStart example_ctx, 1)
                                 (two_chunks @ [ProcClose (Some 1)]))))
             = pre @ [Data (mk_chunk ''chatcmpl-1'' 1700000000 ''claude-haiku-4-5'' EmptyDelta (Some fr)), Done])
   \<and> frames (p_res (fst (relay example_env example_cfg example_ctx (streamStart example_ctx, 1)
                           (two_chunks @ [ProcClose (Some 1)]))))
       = [Data (mk_chunk ''chatcmpl-1'' 1700000000 ''claude-haiku-4-5'' RoleDelta None),
          Data (mk_chunk ''chatcmpl-1'' 1700000000 ''claude-haiku-4-5'' (ContentDelta (JStr ''Hi'')) None),
          Data (mk_chunk ''chatcmpl-1'' 1700000000 ''claude-haiku-4-5'' (ContentDelta (JStr '' there'')) None),
          Data (mk_chunk ''chatcmpl-1'' 1700000000 ''claude-haiku-4-5'' EmptyDelta (Some ''stop'')),
          Done]
   \<and> frames (fst (chat_completions example_env example_stringify_content ''claude-haiku-4-5'' 1700000000
                     (Some [hi_message]) (Streamed (Inr (Body failing_reads))) 0))
       = [Data (mk_chunk ''chatcmpl-r0'' 1700000000 ''claude-haiku-4-5'' RoleDelta None),
          Data (mk_chunk ''chatcmpl-r0'' 1700000000 ''claude-haiku-4-5'' (ContentDelta (JStr ''Hi'')) None),
          Data (mk_chunk ''chatcmpl-r0'' 1700000000 ''claude-haiku-4-5'' (ContentDelta (JStr '' there'')) None),
          Data (mk_chunk ''chatcmpl-r0'' 1700000000 ''claude-haiku-4-5'' EmptyDelta (Some ''stop'')),
          Done]
   \<and> statusCode (fst (chat_completions example_env example_stringify_content ''claude-haiku-4-5'' 1700000000
                         (Some [hi_message]) (Streamed (Inr (Body failing_reads))) 0)) = 200"
proof -
  have h1: "list_all is_output two_chunks"
    by (simp add: two_chunks_def)
  have h2: "list_ex is_content (frames (p_res (fst (relay example_env example_cfg example_ctx
                                             (streamStart example_ctx, 1) two_chunks))))"
    by code_simp
  have h3: "Some 1 \<noteq> Some (0::int)" by simp
  have h4: "[hi_message] \<noteq> []" by simp
  have h5: "AUTH_TOKEN example_env \<noteq> []" by (simp add: example_env_def)
  have ids: "requestId example_ctx = ''chatcmpl-1''" "created example_ctx = 1700000000"
    "model example_ctx = ''claude-haiku-4-5''"
    by (simp_all add: example_ctx_def)
  have p: "frames (p_res (fst (relay example_env example_cfg example_ctx (streamStart example_ctx, 1)
                           (two_chunks @ [ProcClose (Some 1)]))))
       = [Data (mk_chunk ''chatcmpl-1'' 1700000000 ''claude-haiku-4-5'' RoleDelta None),
          Data (mk_chunk ''chatcmpl-1'' 1700000000 ''claude-haiku-4-5'' (ContentDelta (JStr ''Hi'')) None),
          Data (mk_chunk ''chatcmpl-1'' 1700000000 ''claude-haiku-4-5'' (ContentDelta (JStr '' there'')) None),
          Data (mk_chunk ''chatcmpl-1'' 1700000000 ''claude-haiku-4-5'' EmptyDelta (Some ''stop'')),
          Done]"
    by code_simp
  have d: "frames (fst (chat_completions example_env example_stringify_content ''claude-haiku-4-5'' 1700000000
                     (Some [hi_message]) (Streamed (Inr (Body failing_reads))) 0))
       = [Data (mk_chunk ''chatcmpl-r0'' 1700000000 ''claude-haiku-4-5'' RoleDelta None),
          Data (mk_chunk ''chatcmpl-r0'' 1700000000 ''claude-haiku-4-5'' (ContentDelta (JStr ''Hi'')) None),
          Data (mk_chunk ''chatcmpl-r0'' 1700000000 ''claude-haiku-4-5'' (ContentDelta (JStr '' there'')) None),
          Data (mk_chunk ''chatcmpl-r0'' 1700000000 ''claude-haiku-4-5'' EmptyDelta (Some ''stop'')),
          Done]"
    by code_simp
  note T = partial_stream_failure_closes_cleanly [OF h1 h2 h3 h4 h5,
      of example_stringify_content "''claude-haiku-4-5''" 1700000000 failing_reads 0]
  from T have e1: "\<exists>pre fr. list_all plain pre
         \<and> frames (p_res (fst (relay example_env example_cfg example_ctx (streamStart example_ctx, 1)
                                 (two_chunks @ [ProcClose (Some 1)]))))
             = pre @ [Data (mk_chunk ''chatcmpl-1'' 1700000000 ''claude-haiku-4-5'' EmptyDelta (Some fr)), Done]"
    unfolding ids by (rule conjunct1)
  note T2 = T [THEN conjunct2, THEN conjunct2, THEN conjunct2, THEN conjunct2]
  from T2 [THEN conjunct2, THEN conjunct1] have s: "statusCode (fst (chat_completions example_env example_stringify_content ''claude-haiku-4-5'' 1700000000
                         (Some [hi_message]) (Streamed (Inr (Body failing_reads))) 0)) = 200" .
  from h1 h2 h3 h4 h5 e1 p d s show ?thesis by (intro conjI)
qed

text \<open>
  C2, as amended. In the process variant's streaming path, when the subprocess exits
  with a non-zero code after output events: if content was emitted, the stream ends
  with one finish chunk carrying the reason \<open>stop\<close> and the sentinel; the reason
  \<open>error\<close> is carried only when no content was emitted, and then an error object
  precedes the finish chunk.
\<close>

theorem nonzero_exit_finish_reason:
  assumes "list_all is_output evs" and "code \<noteq> Some 0"
  shows "\<exists>pre. list_all plain pre
           \<and> (list_ex is_content (frames (p_res (fst (relay e g c (streamStart c, a) evs))))
                \<longrightarrow> list_ex is_content pre)
           \<and> frames (p_res (fst (relay e g c (streamStart c, a) (evs @ [ProcClose code]))))
               = pre @ (if list_ex is_content pre
                        then [Data (mk_chunk (requestId c) (created c) (model c) EmptyDelta (Some ''stop'')),
                              Done]
                        else [DataError (''Claude CLI exited with code '' @ show_code g code @ '': ''
                                 @ take 200 (p_stderr (fst (relay e g c (streamStart c, a) evs)))) ''server_error'',
                              Data (mk_chunk (requestId c) (created c) (model c) EmptyDelta (Some ''error'')),
                              Done])"
proof -
  let ?r = "p_res (fst (relay e g c (streamStart c, a) (evs @ [ProcClose code])))"
  from close_after_outputs [OF assms(1), of e g c a code]
  obtain pre where pre: "list_all plain pre"
    and cont: "list_ex is_content (frames (p_res (fst (relay e g c (streamStart c, a) evs))))
                \<longrightarrow> list_ex is_content pre"
    and fr0: "frames ?r
               = pre @ (if code \<noteq> Some 0 \<and> \<not> list_ex is_content pre
                        then [DataError (''Claude CLI exited with code '' @ show_code g code @ '': ''
                                 @ take 200 (p_stderr (fst (relay e g c (streamStart c, a) evs)))) ''server_error'']
                        else [])
                     @ [Data (mk_chunk (requestId c) (created c) (model c) EmptyDelta
                                (Some (if code = Some 0 \<or> list_ex is_content pre then ''stop'' else ''error''))),
                        Done]"
    by blast
  from fr0 assms(2) have "frames ?r
               = pre @ (if list_ex is_content pre
                        then [Data (mk_chunk (requestId c) (created c) (model c) EmptyDelta (Some ''stop'')),
                              Done]
                        else [DataError (''Claude CLI exited with code '' @ show_code g code @ '': ''
                                 @ take 200 (p_stderr (fst (relay e g c (streamStart c, a) evs)))) ''server_error'',
                              Data (mk_chunk (requestId c) (created c) (model c) EmptyDelta (Some ''error'')),
                              Done])"
    by (cases "list_ex is_content pre") simp_all
  with pre cont show ?thesis by blast
qed

theorem nonzero_exit_finish_reason_witness:
  "list_all is_output two_chunks \<and> Some 1 \<noteq> Some (0::int)
   \<and> (\<exists>pre. list_all plain pre
           \<and> (list_ex is_content (frames (p_res (fst (relay example_env example_cfg example_ctx
                   (streamStart example_ctx, 1) two_chunks))))
                \<longrightarrow> list_ex is_content pre)
           \<and> frames (p_res (fst (relay example_env example_cfg example_ctx
                   (streamStart example_ctx, 1) (two_chunks @ [ProcClose (Some 1)]))))
               = pre @ (if list_ex is_content pre
                        then [Data (mk_chunk (requestId example_ctx) (created example_ctx) (model example_ctx)
                                      EmptyDelta (Some ''stop'')),
                              Done]
                        else [DataError (''Claude CLI exited with code '' @ show_code example_cfg (Some 1) @ '': ''
                                 @ take 200 (p_stderr (fst (relay example_env example_cfg example_ctx
                                      (streamStart example_ctx, 1) two_chunks)))) ''server_error'',
                              Data (mk_chunk (requestId example_ctx) (created example_ctx) (model example_ctx)
                                      EmptyDelta (Some ''error'')),
                              Done]))
   \<and> list_ex is_content (frames (p_res (fst (relay example_env example_cfg example_ctx
                   (streamStart example_ctx, 1) two_chunks))))"
proof -
  have h1: "list_all is_output two_chunks"
    by (simp add: two_chunks_def)
  have h2: "Some 1 \<noteq> Some (0::int)" by simp
  have h3: "list_ex is_content (frames (p_res (fst (relay example_env example_cfg example_ctx
                   (streamStart example_ctx, 1) two_chunks))))"
    by code_simp
  from h1 h2 nonzero_exit_finish_reason [OF h1 h2, of example_env example_cfg example_ctx 1] h3
  show ?thesis by (intro conjI)
qed

text \<open>
  C2 as stated fails: after two content chunks and exit code 1 the only finish chunk
  carries \<open>stop\<close>, not \<open>error\<close>.
\<close>

theorem nonzero_exit_after_content_carries_stop:
  "filter is_finish (frames (p_res (fst (relay example_env example_cfg example_ctx
       (streamStart example_ctx, 1) (two_chunks @ [ProcClose (Some 1)])))))
   = [Data (mk_chunk ''chatcmpl-1'' 1700000000 ''claude-haiku-4-5'' EmptyDelta (Some ''stop''))]
   \<and> ''stop'' \<noteq> ''error''"
  by code_simp

lemma assemble_finish_reason:
  "cmpl_finish_reason (fst (assemble e rid cr mdl result n)) = finishReasonOf (r_stop_reason result)"
  by (simp add: assemble_def Let_def split: prod.splits)

text \<open>
  C3, as amended. The stop-reason mapping of the direct-call variant is total and lands
  only in stop, length and tool_calls: \<open>tool_use\<close> gives \<open>tool_calls\<close>, \<open>max_tokens\<close>
  gives \<open>length\<close>, every other value and the absent value give \<open>stop\<close>. At the end of
  a direct stream the response is the plain frames written by the loop, then one finish
  chunk whose reason is the mapping of the recorded stop reason, then the sentinel; the
  recorded reason is \<open>stop\<close> when the loop starts, and an event changes it only when it
  is a \<open>message_delta\<close> with a truthy \<open>delta.stop_reason\<close>, to that value. The finish
  reason of the response assembler is the mapping of the result's stop reason. The
  process variant applies no stop-reason mapping at stream end: after output events and
  a close, the response is the plain frames written before, then an error object iff
  the exit code is not 0 and no content chunk is among them, then one finish chunk
  carrying \<open>stop\<close> when the exit code is 0 or a content chunk is among them and
  \<open>error\<close> otherwise, then the sentinel; a content chunk is among them iff the
  \<open>sentContent\<close> flag is set.
\<close>

theorem stop_reason_mapping:
  "finishReasonOf r \<in> {''stop'', ''length'', ''tool_calls''}
   \<and> mapStopReason r \<in> {''stop'', ''length'', ''tool_calls''}
   \<and> finishReasonOf (Some (JStr ''tool_use'')) = ''tool_calls''
   \<and> mapStopReason (Some (JStr ''tool_use'')) = ''tool_calls''
   \<and> finishReasonOf (Some (JStr ''max_tokens'')) = ''length''
   \<and> mapStopReason (Some (JStr ''max_tokens'')) = ''length''
   \<and> (r \<noteq> Some (JStr ''tool_use'') \<and> r \<noteq> Some (JStr ''max_tokens'')
        \<longrightarrow> finishReasonOf r = ''stop'' \<and> mapStopReason r = ''stop'')
   \<and> finishReasonOf None = ''stop''
   \<and> frames (fst (handleStreaming e c fresh_res (Inr (Body reads)) n))
       = frames (d_res (fst (readLoop e c (streamOpened c fresh_res n) reads)))
         @ [Data (mk_chunk (requestId c) (created c) (model c) EmptyDelta
              (Some (finishReasonOf (Some (stopReason (fst (readLoop e c (streamOpened c fresh_res n) reads))))))),
            Done]
   \<and> list_all plain (frames (d_res (fst (readLoop e c (streamOpened c fresh_res n) reads))))
   \<and> stopReason (streamOpened c fresh_res n) = JStr ''stop''
   \<and> stopReason (handleEvent e c ev s)
       = (case field_opt ''stop_reason'' (field ''delta'' ev) of
            Some sr \<Rightarrow> if is_lit (field ''type'' ev) ''message_delta'' \<and> truthy sr then sr
                       else stopReason s
          | None \<Rightarrow> stopReason s)
   \<and> cmpl_finish_reason (fst (assemble e rid cr mdl result n)) = finishReasonOf (r_stop_reason result)
   \<and> (list_all is_output evs \<longrightarrow>
        (\<exists>pre. list_all plain pre
           \<and> frames (p_res (fst (relay e g c (streamStart c, a) (evs @ [ProcClose code]))))
               = pre @ (if code \<noteq> Some 0 \<and> \<not> list_ex is_content pre
                        then [DataError (''Claude CLI exited with code '' @ show_code g code @ '': ''
                                 @ take 200 (p_stderr (fst (relay e g c (streamStart c, a) evs)))) ''server_error'']
                        else [])
                     @ [Data (mk_chunk (requestId c) (created c) (model c) EmptyDelta
                                (Some (if code = Some 0 \<or> list_ex is_content pre then ''stop'' else ''error''))),
                        Done]
           \<and> (sentContent (fst (relay e g c (streamStart c, a) (evs @ [ProcClose code])))
                \<longleftrightarrow> list_ex is_content pre)))"
proof -
  have m: "finishReasonOf r \<in> {''stop'', ''length'', ''tool_calls''}
   \<and> mapStopReason r \<in> {''stop'', ''length'', ''tool_calls''}
   \<and> finishReasonOf (Some (JStr ''tool_use'')) = ''tool_calls''
   \<and> mapStopReason (Some (JStr ''tool_use'')) = ''tool_calls''
   \<and> finishReasonOf (Some (JStr ''max_tokens'')) = ''length''
   \<and> mapStopReason (Some (JStr ''max_tokens'')) = ''length''
   \<and> (r \<noteq> Some (JStr ''tool_use'') \<and> r \<noteq> Some (JStr ''max_tokens'')
        \<longrightarrow> finishReasonOf r = ''stop'' \<and> mapStopReason r = ''stop'')
   \<and> finishReasonOf None = ''stop''"
    by (simp add: finishReasonOf_def mapStopReason_def)
  have init: "stopReason (streamOpened c fresh_res n) = JStr ''stop''"
    by (simp add: streamOpened_def)
  have p: "\<exists>pre. list_all plain pre
           \<and> frames (p_res (fst (relay e g c (streamStart c, a) (evs @ [ProcClose code]))))
               = pre @ (if code \<noteq> Some 0 \<and> \<not> list_ex is_content pre
                        then [DataError (''Claude CLI exited with code '' @ show_code g code @ '': ''
                                 @ take 200 (p_stderr (fst (relay e g c (streamStart c, a) evs)))) ''server_error'']
                        else [])
                     @ [Data (mk_chunk (requestId c) (created c) (model c) EmptyDelta
                                (Some (if code = Some 0 \<or> list_ex is_content pre then ''stop'' else ''error''))),
                        Done]
           \<and> (sentContent (fst (relay e g c (streamStart c, a) (evs @ [ProcClose code])))
                \<longleftrightarrow> list_ex is_content pre)"
    if outs: "list_all is_output evs"
  proof -
    from close_after_outputs [OF outs, of e g c a code]
    obtain pre where "list_all plain pre"
      and "frames (p_res (fst (relay e g c (streamStart c, a) (evs @ [ProcClose code]))))
               = pre @ (if code \<noteq> Some 0 \<and> \<not> list_ex is_content pre
                        then [DataError (''Claude CLI exited with code '' @ show_code g code @ '': ''
                                 @ take 200 (p_stderr (fst (relay e g c (streamStart c, a) evs)))) ''server_error'']
                        else [])
                     @ [Data (mk_chunk (requestId c) (created c) (model c) EmptyDelta
                                (Some (if code = Some 0 \<or> list_ex is_content pre then ''stop'' else ''error''))),
                        Done]"
      and "sentContent (fst (relay e g c (streamStart c, a) (evs @ [ProcClose code])))
                \<longleftrightarrow> list_ex is_content pre"
      by blast
    then show ?thesis by (intro exI [of _ pre] conjI)
  qed
  then have p': "list_all is_output evs \<longrightarrow>
        (\<exists>pre. list_all plain pre
           \<and> frames (p_res (fst (relay e g c (streamStart c, a) (evs @ [ProcClose code]))))
               = pre @ (if code \<noteq> Some 0 \<and> \<not> list_ex is_content pre
                        then [DataError (''Claude CLI exited with code '' @ show_code g code @ '': ''
                                 @ take 200 (p_stderr (fst (relay e g c (streamStart c, a) evs)))) ''server_error'']
                        else [])
                     @ [Data (mk_chunk (requestId c) (created c) (model c) EmptyDelta
                                (Some (if code = Some 0 \<or> list_ex is_content pre then ''stop'' else ''error''))),
                        Done]
           \<and> (sentContent (fst (relay e g c (streamStart c, a) (evs @ [ProcClose code])))
                \<longleftrightarrow> list_ex is_content pre))"
    by (rule impI)
  note m1 = m [THEN conjunct1]
  note m2 = m [THEN conjunct2, THEN conjunct1]
  note m3 = m [THEN conjunct2, THEN conjunct2, THEN conjunct1]
  note m4 = m [THEN conjunct2, THEN conjunct2, THEN conjunct2, THEN conjunct1]
  note m5 = m [THEN conjunct2, THEN conjunct2, THEN conjunct2, THEN conjunct2, THEN conjunct1]
  note m6 = m [THEN conjunct2, THEN conjunct2, THEN conjunct2, THEN conjunct2, THEN conjunct2,
      THEN conjunct1]
  note m7 = m [THEN conjunct2, THEN conjunct2, THEN conjunct2, THEN conjunct2, THEN conjunct2,
      THEN conjunct2, THEN conjunct1]
  note m8 = m [THEN conjunct2, THEN conjunct2, THEN conjunct2, THEN conjunct2, THEN conjunct2,
      THEN conjunct2, THEN conjunct2]
  from m1 m2 m3 m4 m5 m6 m7 m8
    handleStreaming_end [of e c reads n, THEN conjunct1]
    handleStreaming_end [of e c reads n, THEN conjunct2]
    init stopReason_handleEvent [of e c ev s]
    assemble_finish_reason [of e rid cr mdl result n] p'
  show ?thesis by (intro conjI)
qed

text \<open>
  C3 as stated fails at the process variant's stream end: exit code 1 with no content
  produces the finish reason \<open>error\<close>.
\<close>

theorem process_stream_end_produces_error_reason:
  "map finish_reason_of (frames (p_res (fst (relay example_env example_cfg example_ctx
       (streamStart example_ctx, 1) [ProcClose (Some 1)]))))
   = [None, None, Some ''error'', None]
   \<and> ''error'' \<notin> {''stop'', ''length'', ''tool_calls''}"
  by code_simp

theorem stop_reason_mapping_witness:
  "Some (JStr ''refusal'') \<noteq> Some (JStr ''tool_use'')
   \<and> Some (JStr ''refusal'') \<noteq> Some (JStr ''max_tokens'')
   \<and> finishReasonOf (Some (JStr ''refusal'')) = ''stop''
   \<and> mapStopReason (Some (JStr ''refusal'')) = ''stop''
   \<and> list_all is_output two_chunks
   \<and> (\<exists>pre. list_all plain pre
         \<and> frames (p_res (fst (relay example_env example_cfg example_ctx (streamStart example_ctx, 1)
                                 (two_chunks @ [ProcClose (Some 1)]))))
             = pre @ (if Some 1 \<noteq> Some (0::int) \<and> \<not> list_ex is_content pre
                      then [DataError (''Claude CLI exited with code '' @ show_code example_cfg (Some 1) @ '': ''
                               @ take 200 (p_stderr (fst (relay example_env example_cfg example_ctx
                                    (streamStart example_ctx, 1) two_chunks)))) ''server_error'']
                      else [])
                   @ [Data (mk_chunk (requestId example_ctx) (created example_ctx) (model example_ctx) EmptyDelta
                              (Some (if Some 1 = Some (0::int) \<or> list_ex is_content pre then ''stop'' else ''error''))),
                      Done]
         \<and> (sentContent (fst (relay example_env example_cfg example_ctx (streamStart example_ctx, 1)
                                 (two_chunks @ [ProcClose (Some 1)])))
              \<longleftrightarrow> list_ex is_content pre))
   \<and> frames (p_res (fst (relay example_env example_cfg example_ctx (streamStart example_ctx, 1)
                           (two_chunks @ [ProcClose (Some 1)]))))
       = [Data (mk_chunk ''chatcmpl-1'' 1700000000 ''claude-haiku-4-5'' RoleDelta None),
          Data (mk_chunk ''chatcmpl-1'' 1700000000 ''claude-haiku-4-5'' (ContentDelta (JStr ''Hi'')) None),
          Data (mk_chunk ''chatcmpl-1'' 1700000000 ''claude-haiku-4-5'' (ContentDelta (JStr '' there'')) None),
          Data (mk_chunk ''chatcmpl-1'' 1700000000 ''claude-haiku-4-5'' EmptyDelta (Some ''stop'')),
          Done]
   \<and> frames (p_res (fst (relay example_env example_cfg example_ctx (streamStart example_ctx, 1)
                           [StderrData ''boom'', ProcClose (Some 0)])))
       = [Data (mk_chunk ''chatcmpl-1'' 1700000000 ''claude-haiku-4-5'' RoleDelta None),
          Data (mk_chunk ''chatcmpl-1'' 1700000000 ''claude-haiku-4-5'' EmptyDelta (Some ''stop'')),
          Done]
   \<and> frames (fst (handleStreaming example_env example_ctx fresh_res (Inr (Body tool_use_reads)) 0))
       = [Data (mk_chunk ''chatcmpl-1'' 1700000000 ''claude-haiku-4-5'' RoleDelta None),
          Data (mk_chunk ''chatcmpl-1'' 1700000000 ''claude-haiku-4-5'' EmptyDelta (Some ''tool_calls'')),
          Done]
   \<and> stopReason (fst (readLoop example_env example_ctx (streamOpened example_ctx fresh_res 0) tool_use_reads))
       = JStr ''tool_use''"
proof -
  have h1: "Some (JStr ''refusal'') \<noteq> Some (JStr ''tool_use'')"
    and h2: "Some (JStr ''refusal'') \<noteq> Some (JStr ''max_tokens'')"
    by simp_all
  have h3: "list_all is_output two_chunks"
    by (simp add: two_chunks_def)
  note T = stop_reason_mapping [where r = "Some (JStr ''refusal'')" and e = example_env
      and c = example_ctx and reads = tool_use_reads and n = 0 and evs = two_chunks
      and code = "Some 1" and g = example_cfg and a = 1]
  note T6 = T [THEN conjunct2, THEN conjunct2, THEN conjunct2, THEN conjunct2, THEN conjunct2,
      THEN conjunct2]
  from T6 [THEN conjunct1] h1 h2
  have a: "finishReasonOf (Some (JStr ''refusal'')) = ''stop''"
    and b: "mapStopReason (Some (JStr ''refusal'')) = ''stop''"
    by simp_all
  note T8 = T6 [THEN conjunct2, THEN conjunct2]
  from T8 [THEN conjunct2, THEN conjunct2, THEN conjunct2, THEN conjunct2, THEN conjunct2] h3
  have c: "\<exists>pre. list_all plain pre
         \<and> frames (p_res (fst (relay example_env example_cfg example_ctx (streamStart example_ctx, 1)
                                 (two_chunks @ [ProcClose (Some 1)]))))
             = pre @ (if Some 1 \<noteq> Some (0::int) \<and> \<not> list_ex is_content pre
                      then [DataError (''Claude CLI exited with code '' @ show_code example_cfg (Some 1) @ '': ''
                               @ take 200 (p_stderr (fst (relay example_env example_cfg example_ctx
                                    (streamStart example_ctx, 1) two_chunks)))) ''server_error'']
                      else [])
                   @ [Data (mk_chunk (requestId example_ctx) (created example_ctx) (model example_ctx) EmptyDelta
                              (Some (if Some 1 = Some (0::int) \<or> list_ex is_content pre then ''stop'' else ''error''))),
                      Done]
         \<and> (sentContent (fst (relay example_env example_cfg example_ctx (streamStart example_ctx, 1)
                                 (two_chunks @ [ProcClose (Some 1)])))
              \<longleftrightarrow> list_ex is_content pre)"
    by (rule mp)
  have p: "frames (p_res (fst (relay example_env example_cfg example_ctx (streamStart example_ctx, 1)
                           (two_chunks @ [ProcClose (Some 1)]))))
       = [Data (mk_chunk ''chatcmpl-1'' 1700000000 ''claude-haiku-4-5'' RoleDelta None),
          Data (mk_chunk ''chatcmpl-1'' 1700000000 ''claude-haiku-4-5'' (ContentDelta (JStr ''Hi'')) None),
          Data (mk_chunk ''chatcmpl-1'' 1700000000 ''claude-haiku-4-5'' (ContentDelta (JStr '' there'')) None),
          Data (mk_chunk ''chatcmpl-1'' 1700000000 ''claude-haiku-4-5'' EmptyDelta (Some ''stop'')),
          Done]"
    by code_simp
  have q: "frames (p_res (fst (relay example_env example_cfg example_ctx (streamStart example_ctx, 1)
                           [StderrData ''boom'', ProcClose (Some 0)])))
       = [Data (mk_chunk ''chatcmpl-1'' 1700000000 ''claude-haiku-4-5'' RoleDelta None),
          Data (mk_chunk ''chatcmpl-1'' 1700000000 ''claude-haiku-4-5'' EmptyDelta (Some ''stop'')),
          Done]"
    by code_simp
  have d: "frames (fst (handleStreaming example_env example_ctx fresh_res (Inr (Body tool_use_reads)) 0))
       = [Data (mk_chunk ''chatcmpl-1'' 1700000000 ''claude-haiku-4-5'' RoleDelta None),
          Data (mk_chunk ''chatcmpl-1'' 1700000000 ''claude-haiku-4-5'' EmptyDelta (Some ''tool_calls'')),
          Done]"
    by code_simp
  have s: "stopReason (fst (readLoop example_env example_ctx (streamOpened example_ctx fresh_res 0) tool_use_reads))
       = JStr ''tool_use''"
    by code_simp
  from h1 h2 a b h3 c p q d s show ?thesis by (intro conjI)
qed

section \<open>Properties of the message converter\<close>



lemma pushMessage_merge:
  "arr \<noteq> [] \<Longrightarrow> n_role (last arr) = r \<Longrightarrow>
     pushMessage arr r c
       = butlast arr @ [\<lparr>n_role = r, n_content = NBlocks (blocksOf (n_content (last arr)) @ blocksOf c)\<rparr>]"
  by (cases "last arr") (simp add: pushMessage_def Let_def blocksOf_def split: ncontent.splits)

lemma pushMessage_append:
  "arr = [] \<or> n_role (last arr) \<noteq> r \<Longrightarrow>
     pushMessage arr r c = arr @ [\<lparr>n_role = r, n_content = c\<rparr>]"
  by (auto simp: pushMessage_def)

lemma pushMessage_last:
  "pushMessage arr r c \<noteq> []
   \<and> n_role (last (pushMessage arr r c)) = r
   \<and> (\<exists>front. blocksOf (n_content (last (pushMessage arr r c))) = front @ blocksOf c)"
proof (cases "arr \<noteq> [] \<and> n_role (last arr) = r")
  case True
  then show ?thesis by (simp add: pushMessage_merge blocksOf_def)
next
  case False
  then show ?thesis by (simp add: pushMessage_append)
qed


lemma convertStep_system:
  "m_role msg = ''system'' \<Longrightarrow> anthropicMessages (convertStep e sc st msg) = anthropicMessages st"
  by (simp add: convertStep_def Let_def)

lemma convertStep_other:
  "m_role msg \<noteq> ''system'' \<Longrightarrow>
     \<exists>r c. anthropicMessages (convertStep e sc st msg) = pushMessage (anthropicMessages st) r c"
  by (auto simp: convertStep_def Let_def split: prod.splits)





lemma messages_of_convertMessages:
  "n_messages (fst (convertMessages e sc n ms))
     = ensureUserFirst (anthropicMessages (convertLoop e sc n ms))"
  by (simp add: convertMessages_def Let_def)



lemma foldl_convertStep_empty:
  "anthropicMessages (foldl (convertStep e sc) st ms) = []
     \<longleftrightarrow> anthropicMessages st = [] \<and> list_all (\<lambda>m. m_role m = ''system'') ms"
proof (induction ms arbitrary: st)
  case Nil
  then show ?case by simp
next
  case (Cons m ms)
  show ?case
  proof (cases "m_role m = ''system''")
    case True
    with Cons.IH [of "convertStep e sc st m"] show ?thesis
      by (simp add: convertStep_system)
  next
    case False
    from convertStep_other [OF False, of e sc st] pushMessage_last
    have "anthropicMessages (convertStep e sc st m) \<noteq> []" by metis
    with Cons.IH [of "convertStep e sc st m"] False show ?thesis by simp
  qed
qed

text \<open>
  C5. The native message list is empty exactly when every input message has the system
  role; whenever it has a first entry, that entry has the user role: a list that would
  begin with an assistant entry gets the placeholder user message in front, and any
  other list is left as it is.
\<close>

theorem first_entry_is_user:
  "(n_messages (fst (convertMessages e sc n ms)) = [] \<longleftrightarrow> list_all (\<lambda>m. m_role m = ''system'') ms)
   \<and> (n_messages (fst (convertMessages e sc n ms)) \<noteq> []
        \<longrightarrow> n_role (hd (n_messages (fst (convertMessages e sc n ms)))) = User)
   \<and> (anthropicMessages (convertLoop e sc n ms) \<noteq> []
        \<and> n_role (hd (anthropicMessages (convertLoop e sc n ms))) \<noteq> User
        \<longrightarrow> n_messages (fst (convertMessages e sc n ms))
              = placeholder # anthropicMessages (convertLoop e sc n ms))
   \<and> (anthropicMessages (convertLoop e sc n ms) = []
        \<or> n_role (hd (anthropicMessages (convertLoop e sc n ms))) = User
        \<longrightarrow> n_messages (fst (convertMessages e sc n ms)) = anthropicMessages (convertLoop e sc n ms))"
proof -
  let ?arr = "anthropicMessages (convertLoop e sc n ms)"
  have "?arr = [] \<longleftrightarrow> list_all (\<lambda>m. m_role m = ''system'') ms"
    unfolding convertLoop_def by (simp add: foldl_convertStep_empty)
  then show ?thesis
    by (auto simp: messages_of_convertMessages ensureUserFirst_def placeholder_def)
qed

theorem first_entry_is_user_witness:
  "n_messages (fst (convertMessages example_env example_stringify_content 0
                      [plain_message ''assistant'' ''hello''])) \<noteq> []
   \<and> n_role (hd (n_messages (fst (convertMessages example_env example_stringify_content 0
                      [plain_message ''assistant'' ''hello''])))) = User
   \<and> n_messages (fst (convertMessages example_env example_stringify_content 0
                      [plain_message ''assistant'' ''hello'']))
       = [placeholder, \<lparr>n_role = Assistant, n_content = NStr ''hello''\<rparr>]
   \<and> n_messages (fst (convertMessages example_env example_stringify_content 0
                      [plain_message ''system'' ''Be brief.''])) = []"
proof -
  note T = first_entry_is_user [where e = example_env and sc = example_stringify_content and n = 0
      and ms = "[plain_message ''assistant'' ''hello'']"]
  have v: "n_messages (fst (convertMessages example_env example_stringify_content 0
                      [plain_message ''assistant'' ''hello'']))
       = [placeholder, \<lparr>n_role = Assistant, n_content = NStr ''hello''\<rparr>]"
    by code_simp
  then have ne: "n_messages (fst (convertMessages example_env example_stringify_content 0
                      [plain_message ''assistant'' ''hello''])) \<noteq> []"
    by simp
  from T [THEN conjunct2, THEN conjunct1] ne
  have u: "n_role (hd (n_messages (fst (convertMessages example_env example_stringify_content 0
                      [plain_message ''assistant'' ''hello''])))) = User"
    by (rule mp)
  have s: "n_messages (fst (convertMessages example_env example_stringify_content 0
                      [plain_message ''system'' ''Be brief.''])) = []"
    by code_simp
  from ne u v s show ?thesis by (intro conjI)
qed







section \<open>Properties of the response assembler\<close>

lemma extractBlock_step:
  "ex_textParts (extractBlock e st b)
     = ex_textParts st @ filter (\<lambda>t. t \<noteq> []) (case b of RText t \<Rightarrow> [t] | _ \<Rightarrow> [])
   \<and> (\<exists>es. ex_toolCalls (extractBlock e st b) = ex_toolCalls st @ es
          \<and> list_all2 (spec_tool_call e) (tool_uses [b]) es)"
proof (cases b)
  case (RText t)
  then show ?thesis by (simp add: extractBlock_def tool_uses_def)
next
  case (ROther ty)
  then show ?thesis by (simp add: extractBlock_def tool_uses_def)
next
  case (RToolUse bid name inp)
  define entry where "entry = last (ex_toolCalls (extractBlock e st b))"
  from RToolUse have calls: "ex_toolCalls (extractBlock e st b) = ex_toolCalls st @ [entry]"
    and texts: "ex_textParts (extractBlock e st b) = ex_textParts st"
    by (simp_all add: entry_def extractBlock_def Let_def split: prod.splits)
  from RToolUse have ok: "spec_tool_call e b entry"
    by (simp add: entry_def extractBlock_def Let_def spec_tool_call_def genId_def startsWith_def
        truthy_opt_def split: prod.splits option.splits)
  from RToolUse have "tool_uses [b] = [b]"
    by (simp add: tool_uses_def)
  with calls texts ok RToolUse show ?thesis by simp
qed

lemma tool_uses_Cons: "tool_uses (b # bs) = tool_uses [b] @ tool_uses bs"
  by (simp add: tool_uses_def)

lemma extractBlock_fold:
  "ex_textParts (foldl (extractBlock e) st bs)
     = ex_textParts st @ filter (\<lambda>t. t \<noteq> []) (concat (map (\<lambda>b. case b of RText t \<Rightarrow> [t] | _ \<Rightarrow> []) bs))
   \<and> (\<exists>es. ex_toolCalls (foldl (extractBlock e) st bs) = ex_toolCalls st @ es
          \<and> list_all2 (spec_tool_call e) (tool_uses bs) es)"
proof (induction bs arbitrary: st)
  case Nil
  then show ?case by (simp add: tool_uses_def)
next
  case (Cons b bs)
  from extractBlock_step [of e st b] obtain es1
    where t1: "ex_textParts (extractBlock e st b)
                 = ex_textParts st @ filter (\<lambda>t. t \<noteq> []) (case b of RText t \<Rightarrow> [t] | _ \<Rightarrow> [])"
      and c1: "ex_toolCalls (extractBlock e st b) = ex_toolCalls st @ es1"
      and a1: "list_all2 (spec_tool_call e) (tool_uses [b]) es1"
    by blast
  from Cons.IH [of "extractBlock e st b"] obtain es2
    where t2: "ex_textParts (foldl (extractBlock e) (extractBlock e st b) bs)
                 = ex_textParts (extractBlock e st b)
                   @ filter (\<lambda>t. t \<noteq> []) (concat (map (\<lambda>b. case b of RText t \<Rightarrow> [t] | _ \<Rightarrow> []) bs))"
      and c2: "ex_toolCalls (foldl (extractBlock e) (extractBlock e st b) bs)
                 = ex_toolCalls (extractBlock e st b) @ es2"
      and a2: "list_all2 (spec_tool_call e) (tool_uses bs) es2"
    by blast
  from a1 a2 have "list_all2 (spec_tool_call e) (tool_uses (b # bs)) (es1 @ es2)"
    unfolding tool_uses_Cons [of b bs] by (rule list_all2_appendI)
  moreover from c1 c2 have "ex_toolCalls (foldl (extractBlock e) st (b # bs)) = ex_toolCalls st @ (es1 @ es2)"
    by simp
  moreover from t1 t2 have "ex_textParts (foldl (extractBlock e) st (b # bs))
     = ex_textParts st @ filter (\<lambda>t. t \<noteq> []) (concat (map (\<lambda>b. case b of RText t \<Rightarrow> [t] | _ \<Rightarrow> []) (b # bs)))"
    by simp
  ultimately show ?case by blast
qed

lemma concat_nonempty: "concat (filter (\<lambda>t. t \<noteq> []) xs) = concat xs"
  by (induction xs) simp_all

lemma extractResponseContent_spec:
  "fst (extractResponseContent e bs n) = text_concat bs
   \<and> list_all2 (spec_tool_call e) (tool_uses bs) (fst (snd (extractResponseContent e bs n)))"
  using extractBlock_fold [of e "\<lparr>ex_textParts = [], ex_toolCalls = [], ex_draws = n\<rparr>" bs]
  by (auto simp: extractResponseContent_def Let_def text_concat_def concat_nonempty)

text \<open>
  C8, as amended. The message content of the assembled response is the in-order
  concatenation of the result's text blocks when that concatenation is not empty, and
  null when it is empty, whether or not the result has a tool invocation; the response
  has a tool-call list exactly when the result has a tool-invocation block, with one
  entry per block, in order, whose arguments are the serialization of the block's input.
\<close>

theorem assembler_content_and_tool_calls:
  "msg_content (cmpl_message (fst (assemble e rid cr mdl result n)))
     = (if text_concat (case r_content result of None \<Rightarrow> [] | Some bs \<Rightarrow> bs) = [] then None
        else Some (text_concat (case r_content result of None \<Rightarrow> [] | Some bs \<Rightarrow> bs)))
   \<and> (case msg_tool_calls (cmpl_message (fst (assemble e rid cr mdl result n))) of
         None \<Rightarrow> tool_uses (case r_content result of None \<Rightarrow> [] | Some bs \<Rightarrow> bs) = []
       | Some entries \<Rightarrow>
           entries \<noteq> []
           \<and> list_all2 (spec_tool_call e)
                (tool_uses (case r_content result of None \<Rightarrow> [] | Some bs \<Rightarrow> bs)) entries)"
proof -
  define bs where "bs = (case r_content result of None \<Rightarrow> [] | Some bs \<Rightarrow> bs)"
  obtain joined calls k where ex: "extractResponseContent e bs n = (joined, calls, k)"
    by (cases "extractResponseContent e bs n") auto
  from extractResponseContent_spec [of e bs n] ex
  have joined: "joined = text_concat bs" and calls: "list_all2 (spec_tool_call e) (tool_uses bs) calls"
    by simp_all
  from calls have "calls = [] \<longleftrightarrow> tool_uses bs = []"
    by (auto simp: list_all2_Nil list_all2_Nil2)
  with ex joined calls show ?thesis
    unfolding bs_def [symmetric]
    by (simp add: assemble_def bs_def [symmetric])
qed

theorem assembler_content_and_tool_calls_witness:
  \<open>msg_content (cmpl_message (fst (assemble example_env ''chatcmpl-1'' 1700000000 ''m'' weather_result 0)))
     = Some ''It is sunny''
   \<and> msg_tool_calls (cmpl_message (fst (assemble example_env ''chatcmpl-1'' 1700000000 ''m'' weather_result 0)))
     = Some [\<lparr>tce_id = ''toolu_1'', tce_name = Some ''get_weather'',
              tce_arguments = ''{"city":"Paris"}''\<rparr>]\<close>
proof -
  note T = assembler_content_and_tool_calls [where e = example_env and rid = "''chatcmpl-1''"
      and cr = 1700000000 and mdl = "''m''" and result = weather_result and n = 0]
  have t: "text_concat (case r_content weather_result of None \<Rightarrow> [] | Some bs \<Rightarrow> bs) = ''It is sunny''"
    by code_simp
  from T [THEN conjunct1]
  have a: "msg_content (cmpl_message (fst (assemble example_env ''chatcmpl-1'' 1700000000 ''m'' weather_result 0)))
     = Some ''It is sunny''"
    unfolding t by simp
  have b: \<open>msg_tool_calls (cmpl_message (fst (assemble example_env ''chatcmpl-1'' 1700000000 ''m'' weather_result 0)))
     = Some [\<lparr>tce_id = ''toolu_1'', tce_name = Some ''get_weather'',
              tce_arguments = ''{"city":"Paris"}''\<rparr>]\<close>
    by code_simp
  from a b show ?thesis by (rule conjI)
qed

text \<open>
  C8 as stated fails: a result with no content block at all, hence no tool invocation,
  gets the content null, not the empty concatenation.
\<close>

theorem empty_result_has_null_content:
  "msg_content (cmpl_message (fst (assemble example_env ''chatcmpl-1'' 1700000000 ''m'' empty_result 0)))
     = None
   \<and> msg_content (cmpl_message (fst (assemble example_env ''chatcmpl-1'' 1700000000 ''m'' empty_result 0)))
     \<noteq> Some (text_concat (case r_content empty_result of None \<Rightarrow> [] | Some bs \<Rightarrow> bs))
   \<and> tool_uses (case r_content empty_result of None \<Rightarrow> [] | Some bs \<Rightarrow> bs) = []"
  by code_simp

section \<open>Properties of the usage object\<close>

text \<open>Up to \<open>2^53\<close> in magnitude every integer is a double, so that a sum there is exact.\<close>

lemma round_to_double_small:
  assumes "0 \<le> m" and "m \<le> 2 ^ 53"
  shows "round_to_double m = m"
proof (cases "m < 2 ^ 53")
  case True
  then show ?thesis by (simp add: round_to_double_def)
next
  case False
  with assms have m: "m = 2 ^ 53" by simp
  have "ulp (2 ^ 53) = 2" by simp
  then show ?thesis unfolding m by (simp add: round_to_double_def Let_def)
qed

lemma to_double_small: "\<bar>x\<bar> \<le> 2 ^ 53 \<Longrightarrow> to_double x = x"
  by (auto simp: to_double_def round_to_double_small)

lemma js_plus_exact:
  "\<bar>p + q\<bar> \<le> 2 ^ 53 \<Longrightarrow> js_plus e (JNum p) (JNum q) = JNum (p + q)"
  by (simp add: js_plus_def to_double_small)

lemma js_sum_adds_up:
  assumes "js_sum e u" and "prompt_tokens u = JNum p" and "completion_tokens u = JNum q"
    and "\<bar>p + q\<bar> \<le> 2 ^ 53"
  shows "adds_up u"
  using assms by (simp add: js_sum_def adds_up_def js_plus_exact)

lemma directUsage_js_sum: "js_sum e (directUsage e result)"
  by (simp add: js_sum_def directUsage_def)

lemma cliUsage_js_sum: "js_sum e (cliUsage e p cr)"
  by (simp add: js_sum_def cliUsage_def)

lemma estimateTokens_bounds:
  assumes "int (length t) \<le> 2 ^ 53"
  shows "0 \<le> estimateTokens t \<and> estimateTokens t \<le> 2 ^ 51"
  using assms by (simp add: estimateTokens_def) arith

lemma cliUsage_estimates_add_up:
  assumes "cr_usage cr = None" and "int (length p) \<le> 2 ^ 53" and "int (length (cr_text cr)) \<le> 2 ^ 53"
  shows "adds_up (cliUsage e p cr)"
proof -
  from assms(1) have pt: "prompt_tokens (cliUsage e p cr) = JNum (estimateTokens p)"
    and ct: "completion_tokens (cliUsage e p cr) = JNum (estimateTokens (cr_text cr))"
    by (simp_all add: cliUsage_def tokens_or_estimate_def)
  from estimateTokens_bounds [OF assms(2)] estimateTokens_bounds [OF assms(3)]
  have "\<bar>estimateTokens p + estimateTokens (cr_text cr)\<bar> \<le> 2 ^ 53"
    by simp
  with cliUsage_js_sum pt ct show ?thesis
    by (rule js_sum_adds_up)
qed

lemma assemble_usage: "cmpl_usage (fst (assemble e rid cr mdl result n)) = directUsage e result"
  by (simp add: assemble_def Let_def split: prod.splits)

lemma usage_of_error: "usage_of (res_json r code (ErrorBody m t cd)) = None"
  by (simp add: usage_of_def res_json_def)

lemma usage_of_fresh: "usage_of fresh_res = None"
  by (simp add: usage_of_def fresh_res_def)

lemma handleNonStreaming_result:
  "handleNonStreaming e c fresh_res api k
     = (case api of
          Inl err \<Rightarrow> (fresh_res, Some err, k)
        | Inr result \<Rightarrow>
            (res_json fresh_res 200 (ChatCompletion (fst (assemble e (requestId c) (created c) (model c) result k))),
             None, snd (assemble e (requestId c) (created c) (model c) result k)))"
  by (cases api) (simp_all add: handleNonStreaming_def split: prod.splits)

lemma chat_completions_completed:
  assumes "ms \<noteq> []" and "AUTH_TOKEN e \<noteq> []"
  shows "\<exists>rid k. fst (chat_completions e sc mdl now (Some ms) (Completed api) n)
           = (case api of
                Inl err \<Rightarrow> res_json fresh_res 502 (ErrorBody err ''server_error'' None)
              | Inr result \<Rightarrow>
                  res_json fresh_res 200 (ChatCompletion (fst (assemble e rid now mdl result k))))"
proof -
  define c where "c = \<lparr>requestId = ''chatcmpl'' @ ''-'' @ randomBytes e n, created = now, model = mdl\<rparr>"
  define k where "k = snd (convertMessages e sc (Suc n) ms)"
  have "fst (chat_completions e sc mdl now (Some ms) (Completed api) n)
          = (case fst (snd (handleNonStreaming e c fresh_res api k)) of
               None \<Rightarrow> fst (handleNonStreaming e c fresh_res api k)
             | Some err \<Rightarrow>
                 if \<not> headersSent (fst (handleNonStreaming e c fresh_res api k))
                 then res_json (fst (handleNonStreaming e c fresh_res api k)) 502
                        (ErrorBody err ''server_error'' None)
                 else fst (handleNonStreaming e c fresh_res api k))"
    using assms
    by (simp add: chat_completions_def genId_def Let_def c_def k_def split: prod.splits option.splits)
  also have "\<dots> = (case api of
                Inl err \<Rightarrow> res_json fresh_res 502 (ErrorBody err ''server_error'' None)
              | Inr result \<Rightarrow>
                  res_json fresh_res 200
                    (ChatCompletion (fst (assemble e (requestId c) (created c) (model c) result k))))"
    unfolding handleNonStreaming_result
    by (cases api) (simp_all add: fresh_res_def)
  finally have eq: "fst (chat_completions e sc mdl now (Some ms) (Completed api) n)
          = (case api of
                Inl err \<Rightarrow> res_json fresh_res 502 (ErrorBody err ''server_error'' None)
              | Inr result \<Rightarrow>
                  res_json fresh_res 200
                    (ChatCompletion (fst (assemble e (requestId c) (created c) (model c) result k))))" .
  have cs: "created c = now" "model c = mdl"
    by (simp_all add: c_def)
  from eq show ?thesis
    unfolding cs by (intro exI [of _ "requestId c"] exI [of _ k])
qed

lemma chat_completions_usage:
  "usage_of (fst (chat_completions e sc mdl now msgs (Completed api) n))
     = (case msgs of
          None \<Rightarrow> None
        | Some ms \<Rightarrow>
            if ms = [] \<or> AUTH_TOKEN e = [] then None
            else (case api of Inl err \<Rightarrow> None | Inr result \<Rightarrow> Some (directUsage e result)))"
proof (cases "msgs = None \<or> msgs = Some [] \<or> AUTH_TOKEN e = []")
  case True
  then show ?thesis
    by (auto simp: chat_completions_def genId_def usage_of_error split: option.splits)
next
  case False
  then obtain ms where ms: "msgs = Some ms" "ms \<noteq> []" "AUTH_TOKEN e \<noteq> []"
    by auto
  from chat_completions_completed [OF ms(2,3), of sc mdl now api n]
  obtain rid k where "fst (chat_completions e sc mdl now (Some ms) (Completed api) n)
           = (case api of
                Inl err \<Rightarrow> res_json fresh_res 502 (ErrorBody err ''server_error'' None)
              | Inr result \<Rightarrow>
                  res_json fresh_res 200 (ChatCompletion (fst (assemble e rid now mdl result k))))"
    by blast
  with ms show ?thesis
    by (cases api) (simp_all add: usage_of_error, simp add: usage_of_def res_json_def assemble_usage)
qed

lemma completions_usage:
  "usage_of (fst (completions e sc mdl now pr api n))
     = (if pr = POther \<or> trim (case pr of PStr s \<Rightarrow> s | PList ss \<Rightarrow> join NL ss | _ \<Rightarrow> []) = []
        then None
        else (case api of Inl err \<Rightarrow> None | Inr result \<Rightarrow> Some (directUsage e result)))"
  by (cases api)
     (simp_all add: completions_def Let_def usage_of_error usage_of_fresh split: prod.splits,
      simp_all add: usage_of_def res_json_def)

lemma chatFinish_usage:
  "usage_of (fst (chatFinish e g parse_cli c userPrompt pe a))
     = (case runClaudeNonStreaming g parse_cli pe of
          Inl err \<Rightarrow> None
        | Inr cr \<Rightarrow> Some (cliUsage e userPrompt cr))"
  by (simp add: chatFinish_def usage_of_error split: sum.splits)
     (simp add: usage_of_def res_json_def)

lemma completionsFinish_usage:
  "usage_of (fst (completionsFinish e g parse_cli c prompt_text pe a))
     = (case runClaudeNonStreaming g parse_cli pe of
          Inl err \<Rightarrow> None
        | Inr cr \<Rightarrow> Some (cliUsage e prompt_text cr))"
  by (simp add: completionsFinish_def usage_of_error split: sum.splits)
     (simp add: usage_of_def res_json_def)

text \<open>
  C10, as amended. In every non-streaming response of the four routes (chat and legacy
  completions, direct-call and process variant) that has a usage object, the total is
  the result of the operator \<open>+\<close> of the code on the prompt and the completion count.
  A successful request of each route has such an object, made from the backend's counts
  (direct-call variant: a falsy or absent count is 0; process variant: an absent or
  \<open>null\<close> count is estimated from the length of the text). The total is the sum of the
  two counts whenever both are integers whose sum is at most \<open>2^53\<close> in magnitude, and
  so for every pair of estimates of texts of at most \<open>2^53\<close> characters.
\<close>

theorem usage_totals_add_up:
  "(usage_of (fst (chat_completions e sc mdl now msgs (Completed api) n)) = Some u1 \<longrightarrow> js_sum e u1)
   \<and> (usage_of (fst (completions e sc mdl now pr api n)) = Some u2 \<longrightarrow> js_sum e u2)
   \<and> (usage_of (fst (chatFinish e g parse_cli c userPrompt pe a)) = Some u3 \<longrightarrow> js_sum e u3)
   \<and> (usage_of (fst (completionsFinish e g parse_cli c userPrompt pe a)) = Some u4 \<longrightarrow> js_sum e u4)
   \<and> (ms \<noteq> [] \<and> AUTH_TOKEN e \<noteq> [] \<longrightarrow>
        usage_of (fst (chat_completions e sc mdl now (Some ms) (Completed (Inr result)) n))
          = Some (directUsage e result))
   \<and> (trim s \<noteq> [] \<longrightarrow>
        usage_of (fst (completions e sc mdl now (PStr s) (Inr result) n)) = Some (directUsage e result))
   \<and> (trim (join NL ss) \<noteq> [] \<longrightarrow>
        usage_of (fst (completions e sc mdl now (PList ss) (Inr result) n)) = Some (directUsage e result))
   \<and> (runClaudeNonStreaming g parse_cli pe = Inr cr \<longrightarrow>
        usage_of (fst (chatFinish e g parse_cli c userPrompt pe a)) = Some (cliUsage e userPrompt cr)
        \<and> usage_of (fst (completionsFinish e g parse_cli c userPrompt pe a))
            = Some (cliUsage e userPrompt cr))
   \<and> (js_sum e u \<and> prompt_tokens u = JNum p \<and> completion_tokens u = JNum q \<and> \<bar>p + q\<bar> \<le> 2 ^ 53
        \<longrightarrow> adds_up u)
   \<and> (cr_usage cr = None \<and> int (length userPrompt) \<le> 2 ^ 53 \<and> int (length (cr_text cr)) \<le> 2 ^ 53
        \<longrightarrow> adds_up (cliUsage e userPrompt cr))"
proof -
  have r1: "usage_of (fst (chat_completions e sc mdl now msgs (Completed api) n)) = Some u1 \<longrightarrow> js_sum e u1"
    unfolding chat_completions_usage
    by (auto simp: directUsage_js_sum split: option.splits sum.splits if_splits)
  have r2: "usage_of (fst (completions e sc mdl now pr api n)) = Some u2 \<longrightarrow> js_sum e u2"
    unfolding completions_usage
    by (auto simp: directUsage_js_sum split: sum.splits if_splits)
  have r3: "usage_of (fst (chatFinish e g parse_cli c userPrompt pe a)) = Some u3 \<longrightarrow> js_sum e u3"
    unfolding chatFinish_usage
    by (auto simp: cliUsage_js_sum split: sum.splits)
  have r4: "usage_of (fst (completionsFinish e g parse_cli c userPrompt pe a)) = Some u4 \<longrightarrow> js_sum e u4"
    unfolding completionsFinish_usage
    by (auto simp: cliUsage_js_sum split: sum.splits)
  have s1: "ms \<noteq> [] \<and> AUTH_TOKEN e \<noteq> [] \<longrightarrow>
        usage_of (fst (chat_completions e sc mdl now (Some ms) (Completed (Inr result)) n))
          = Some (directUsage e result)"
    unfolding chat_completions_usage by simp
  have s2: "trim s \<noteq> [] \<longrightarrow>
        usage_of (fst (completions e sc mdl now (PStr s) (Inr result) n)) = Some (directUsage e result)"
    unfolding completions_usage by simp
  have s3: "trim (join NL ss) \<noteq> [] \<longrightarrow>
        usage_of (fst (completions e sc mdl now (PList ss) (Inr result) n)) = Some (directUsage e result)"
    unfolding completions_usage by simp
  have s4: "runClaudeNonStreaming g parse_cli pe = Inr cr \<longrightarrow>
        usage_of (fst (chatFinish e g parse_cli c userPrompt pe a)) = Some (cliUsage e userPrompt cr)
        \<and> usage_of (fst (completionsFinish e g parse_cli c userPrompt pe a))
            = Some (cliUsage e userPrompt cr)"
    unfolding chatFinish_usage completionsFinish_usage by simp
  have x1: "js_sum e u \<and> prompt_tokens u = JNum p \<and> completion_tokens u = JNum q \<and> \<bar>p + q\<bar> \<le> 2 ^ 53
        \<longrightarrow> adds_up u"
    using js_sum_adds_up [of e u p q] by blast
  have x2: "cr_usage cr = None \<and> int (length userPrompt) \<le> 2 ^ 53 \<and> int (length (cr_text cr)) \<le> 2 ^ 53
        \<longrightarrow> adds_up (cliUsage e userPrompt cr)"
    using cliUsage_estimates_add_up [of cr userPrompt e] by blast
  from r1 r2 r3 r4 s1 s2 s3 s4 x1 x2 show ?thesis by (intro conjI)
qed

theorem usage_totals_add_up_witness:
  "[hi_message] \<noteq> [] \<and> AUTH_TOKEN example_env \<noteq> [] \<and> trim ''hi'' \<noteq> []
   \<and> trim (join NL [''a'', ''b'']) \<noteq> []
   \<and> runClaudeNonStreaming example_cfg (\<lambda>s. None) fallback_run = Inr fallback_result
   \<and> usage_of (fst (chat_completions example_env example_stringify_content ''claude-haiku-4-5''
                       1700000000 (Some [hi_message]) (Completed (Inr weather_result)) 0))
       = Some (directUsage example_env weather_result)
   \<and> usage_of (fst (completions example_env example_stringify_content ''claude-haiku-4-5''
                       1700000000 (PStr ''hi'') (Inr weather_result) 0))
       = Some (directUsage example_env weather_result)
   \<and> usage_of (fst (completions example_env example_stringify_content ''claude-haiku-4-5''
                       1700000000 (PList [''a'', ''b'']) (Inr weather_result) 0))
       = Some (directUsage example_env weather_result)
   \<and> usage_of (fst (chatFinish example_env example_cfg (\<lambda>s. None) example_ctx ''hi'' fallback_run 1))
       = Some (cliUsage example_env ''hi'' fallback_result)
   \<and> usage_of (fst (completionsFinish example_env example_cfg (\<lambda>s. None) example_ctx ''hi'' fallback_run 1))
       = Some (cliUsage example_env ''hi'' fallback_result)
   \<and> js_sum example_env (directUsage example_env weather_result)
   \<and> js_sum example_env (cliUsage example_env ''hi'' fallback_result)
   \<and> directUsage example_env weather_result
       = \<lparr>prompt_tokens = JNum 12, completion_tokens = JNum 7, total_tokens = JNum 19\<rparr>
   \<and> \<bar>12 + 7\<bar> \<le> (2::int) ^ 53
   \<and> adds_up (directUsage example_env weather_result)
   \<and> cr_usage fallback_result = None
   \<and> int (length ''hi'') \<le> 2 ^ 53 \<and> int (length (cr_text fallback_result)) \<le> 2 ^ 53
   \<and> adds_up (cliUsage example_env ''hi'' fallback_result)
   \<and> cliUsage example_env ''hi'' fallback_result
       = \<lparr>prompt_tokens = JNum 1, completion_tokens = JNum 3, total_tokens = JNum 4\<rparr>"
proof -
  have h1: "[hi_message] \<noteq> []" by simp
  have h2: "AUTH_TOKEN example_env \<noteq> []" by (simp add: example_env_def)
  have h3: "trim ''hi'' \<noteq> []" by code_simp
  have h4: "trim (join NL [''a'', ''b'']) \<noteq> []" by code_simp
  have h5: "runClaudeNonStreaming example_cfg (\<lambda>s. None) fallback_run = Inr fallback_result"
    by code_simp
  have h6: "cr_usage fallback_result = None" by (simp add: fallback_result_def)
  have h7: "int (length ''hi'') \<le> 2 ^ 53" by simp
  have h8: "int (length (cr_text fallback_result)) \<le> 2 ^ 53" by (simp add: fallback_result_def)
  have h9: "\<bar>12 + 7\<bar> \<le> (2::int) ^ 53" by simp
  have v1: "directUsage example_env weather_result
       = \<lparr>prompt_tokens = JNum 12, completion_tokens = JNum 7, total_tokens = JNum 19\<rparr>"
    by code_simp
  have v2: "cliUsage example_env ''hi'' fallback_result
       = \<lparr>prompt_tokens = JNum 1, completion_tokens = JNum 3, total_tokens = JNum 4\<rparr>"
    by code_simp
  have pq: "prompt_tokens (directUsage example_env weather_result) = JNum 12"
    "completion_tokens (directUsage example_env weather_result) = JNum 7"
    by (simp_all add: v1)
  note T = usage_totals_add_up [where e = example_env and sc = example_stringify_content
      and mdl = "''claude-haiku-4-5''" and now = 1700000000 and ms = "[hi_message]"
      and msgs = "Some [hi_message]" and api = "Inr weather_result" and pr = "PStr ''hi''"
      and s = "''hi''" and ss = "[''a'', ''b'']"
      and result = weather_result and n = 0 and g = example_cfg and parse_cli = "\<lambda>s. None"
      and c = example_ctx and userPrompt = "''hi''" and pe = fallback_run
      and a = 1 and cr = fallback_result
      and u = "directUsage example_env weather_result" and p = 12 and q = 7
      and ?u1.0 = "directUsage example_env weather_result"
      and ?u2.0 = "directUsage example_env weather_result"
      and ?u3.0 = "cliUsage example_env ''hi'' fallback_result"
      and ?u4.0 = "cliUsage example_env ''hi'' fallback_result"]
  note T4 = T [THEN conjunct2, THEN conjunct2, THEN conjunct2, THEN conjunct2]
  note T8 = T4 [THEN conjunct2, THEN conjunct2, THEN conjunct2, THEN conjunct2]
  from T4 [THEN conjunct1] h1 h2
  have d1: "usage_of (fst (chat_completions example_env example_stringify_content ''claude-haiku-4-5''
                       1700000000 (Some [hi_message]) (Completed (Inr weather_result)) 0))
       = Some (directUsage example_env weather_result)"
    by simp
  from T4 [THEN conjunct2, THEN conjunct1] h3
  have d2: "usage_of (fst (completions example_env example_stringify_content ''claude-haiku-4-5''
                       1700000000 (PStr ''hi'') (Inr weather_result) 0))
       = Some (directUsage example_env weather_result)"
    by (rule mp)
  from T4 [THEN conjunct2, THEN conjunct2, THEN conjunct1] h4
  have d3: "usage_of (fst (completions example_env example_stringify_content ''claude-haiku-4-5''
                       1700000000 (PList [''a'', ''b'']) (Inr weather_result) 0))
       = Some (directUsage example_env weather_result)"
    by (rule mp)
  from T4 [THEN conjunct2, THEN conjunct2, THEN conjunct2, THEN conjunct1] h5
  have d45: "usage_of (fst (chatFinish example_env example_cfg (\<lambda>s. None) example_ctx ''hi'' fallback_run 1))
       = Some (cliUsage example_env ''hi'' fallback_result)
     \<and> usage_of (fst (completionsFinish example_env example_cfg (\<lambda>s. None) example_ctx ''hi'' fallback_run 1))
       = Some (cliUsage example_env ''hi'' fallback_result)"
    by (rule mp)
  from T [THEN conjunct1] d1
  have j1: "js_sum example_env (directUsage example_env weather_result)"
    by (rule mp)
  from T [THEN conjunct2, THEN conjunct2, THEN conjunct1] d45 [THEN conjunct1]
  have j2: "js_sum example_env (cliUsage example_env ''hi'' fallback_result)"
    by (rule mp)
  from T8 [THEN conjunct1] j1 pq h9
  have a1: "adds_up (directUsage example_env weather_result)"
    by simp
  from T8 [THEN conjunct2] h6 h7 h8
  have a2: "adds_up (cliUsage example_env ''hi'' fallback_result)"
    by simp
  from h1 h2 h3 h4 h5 d1 d2 d3 d45 [THEN conjunct1] d45 [THEN conjunct2] j1 j2 v1 h9 a1 h6 h7 h8 a2 v2
  show ?thesis by (intro conjI)
qed

text \<open>
  C10 as stated fails when the sum is no double: with the counts \<open>2^53\<close> and 1 the
  total in the body is \<open>2^53\<close>, on the chat route and on the legacy route.
\<close>

theorem rounded_total_is_not_the_sum:
  "usage_of (fst (chat_completions example_env example_stringify_content ''claude-haiku-4-5''
                    1700000000 (Some [hi_message]) (Completed (Inr huge_result)) 0))
     = Some \<lparr>prompt_tokens = JNum 9007199254740992, completion_tokens = JNum 1,
             total_tokens = JNum 9007199254740992\<rparr>
   \<and> usage_of (fst (completions example_env example_stringify_content ''claude-haiku-4-5''
                       1700000000 (PStr ''hi'') (Inr huge_result) 0))
       = Some \<lparr>prompt_tokens = JNum 9007199254740992, completion_tokens = JNum 1,
               total_tokens = JNum 9007199254740992\<rparr>
   \<and> (9007199254740992::int) \<noteq> 9007199254740992 + 1
   \<and> \<not> adds_up (directUsage example_env huge_result)"
  by code_simp
end
